theory Spec2Isabelle
  imports Complex_Main
begin

section \<open>Python values, exceptions and the built-ins the SDK relies on\<close>

text \<open>
  The SDK (package \<open>b402\<close>) is Python.  A raised exception is a value: \<open>Exn cls m\<close> is an
  instance of the exception class named \<open>cls\<close> whose \<open>str()\<close> is \<open>m\<close>.  Only classes derived
  from \<open>Exception\<close> are modelled (what an \<open>except Exception\<close> clause catches); interpreter
  signals such as \<open>KeyboardInterrupt\<close> are outside the model.  A computation that may raise
  has the type \<open>exn + 'a\<close>, \<open>Inl\<close> being the raise.
\<close>

datatype exn = Exn (exn_class: string) (exn_str: string)

definition exn_bind :: "exn + 'a \<Rightarrow> ('a \<Rightarrow> exn + 'b) \<Rightarrow> exn + 'b" where
  "exn_bind m f = (case m of Inl e \<Rightarrow> Inl e | Inr x \<Rightarrow> f x)"

text \<open>
  Finite binary64 values are kept as a pair of integers: \<open>Finite m e\<close> is the number
  \<open>m * 2^e\<close>.  The sign of a zero is not kept; no result of the SDK depends on it.
\<close>

datatype pyfloat = Finite int int | Infinity bool | NaN

text \<open>
  A decoded JSON document, as \<open>response.json()\<close> returns it: \<open>JNull\<close> is Python's \<open>None\<close>,
  an object is a \<open>dict\<close> (kept as the list of its members in document order; a repeated
  key takes its last value).
\<close>

datatype json =
    JNull
  | JBool bool
  | JInt int
  | JFloat pyfloat
  | JStr string
  | JArr "json list"
  | JObj "(string \<times> json) list"

fun float_is_zero :: "pyfloat \<Rightarrow> bool" where
  "float_is_zero (Finite m e) = (m = 0)"
| "float_is_zero (Infinity s) = False"
| "float_is_zero NaN = False"

text \<open>Python truth value testing (\<open>not x\<close>, \<open>if x:\<close>).\<close>

fun truthy :: "json \<Rightarrow> bool" where
  "truthy JNull = False"
| "truthy (JBool b) = b"
| "truthy (JInt n) = (n \<noteq> 0)"
| "truthy (JFloat f) = (\<not> float_is_zero f)"
| "truthy (JStr s) = (s \<noteq> [])"
| "truthy (JArr xs) = (xs \<noteq> [])"
| "truthy (JObj kvs) = (kvs \<noteq> [])"

fun type_name :: "json \<Rightarrow> string" where
  "type_name JNull = ''NoneType''"
| "type_name (JBool b) = ''bool''"
| "type_name (JInt n) = ''int''"
| "type_name (JFloat f) = ''float''"
| "type_name (JStr s) = ''str''"
| "type_name (JArr xs) = ''list''"
| "type_name (JObj kvs) = ''dict''"

text \<open>
  \<open>d.get(key, default)\<close>: only a \<open>dict\<close> has the method; on any other decoded value the
  attribute lookup raises \<open>AttributeError\<close>.
\<close>

definition dict_get :: "json \<Rightarrow> string \<Rightarrow> json \<Rightarrow> exn + json" where
  "dict_get d key dflt =
     (case d of
        JObj kvs \<Rightarrow> (case map_of (rev kvs) key of None \<Rightarrow> Inr dflt | Some v \<Rightarrow> Inr v)
      | _ \<Rightarrow> Inl (Exn ''AttributeError''
                 ([CHR 0x27] @ type_name d @ [CHR 0x27] @ '' object has no attribute ''
                   @ [CHR 0x27] @ ''get'' @ [CHR 0x27])))"

subsection \<open>Integers and decimal text\<close>

definition digit_char :: "nat \<Rightarrow> char" where
  "digit_char d = ''0123456789'' ! d"

fun digits_of_nat :: "nat \<Rightarrow> string" where
  "digits_of_nat n =
     (if n < 10 then [digit_char n] else digits_of_nat (n div 10) @ [digit_char (n mod 10)])"

declare digits_of_nat.simps [simp del]

definition digit_table :: "(char \<times> nat) list" where
  "digit_table =
     [(CHR ''0'', 0), (CHR ''1'', 1), (CHR ''2'', 2), (CHR ''3'', 3), (CHR ''4'', 4),
      (CHR ''5'', 5), (CHR ''6'', 6), (CHR ''7'', 7), (CHR ''8'', 8), (CHR ''9'', 9)]"

definition digit_val :: "char \<Rightarrow> nat option" where
  "digit_val c = map_of digit_table c"

definition is_digit :: "char \<Rightarrow> bool" where
  "is_digit c = (digit_val c \<noteq> None)"

text \<open>The number a string of decimal digits denotes (most significant digit first).\<close>

fun nat_of_digits :: "nat \<Rightarrow> string \<Rightarrow> nat" where
  "nat_of_digits acc [] = acc"
| "nat_of_digits acc (c # cs) = nat_of_digits (10 * acc + (case digit_val c of Some d \<Rightarrow> d | None \<Rightarrow> 0)) cs"

text \<open>
  CPython (3.11 and later) refuses to convert between \<open>int\<close> and decimal text when more
  than 4300 digits are involved, raising \<open>ValueError\<close>.
\<close>

definition int_max_str_digits :: nat where
  "int_max_str_digits = 4300"

definition digits_limit_error :: exn where
  "digits_limit_error = Exn ''ValueError''
     (''Exceeds the limit (4300 digits) for integer string conversion; '' @
      ''use sys.set_int_max_str_digits() to increase the limit'')"

text \<open>\<open>str(n)\<close> for an \<open>int\<close>.\<close>

definition py_str_int :: "int \<Rightarrow> exn + string" where
  "py_str_int n =
     (let ds = digits_of_nat (nat \<bar>n\<bar>) in
      if length ds > int_max_str_digits then Inl digits_limit_error
      else Inr ((if n < 0 then ''-'' else []) @ ds))"

text \<open>
  Leading and trailing white space is ignored by \<open>int()\<close> and \<open>float()\<close>.  Strings are
  taken to be ASCII text (for which the white space is tab, line feed, vertical tab, form
  feed, carriage return and space).
\<close>

definition is_space :: "char \<Rightarrow> bool" where
  "is_space c = (c \<in> set [CHR 0x09, CHR 0x0A, CHR 0x0B, CHR 0x0C, CHR 0x0D, CHR 0x20])"

definition py_strip :: "string \<Rightarrow> string" where
  "py_strip s = rev (dropWhile is_space (rev (dropWhile is_space s)))"

text \<open>
  Numeric literals may group digits with single underscores: each underscore stands
  between two digits.  \<open>drop_underscores\<close> removes them, or fails on a misplaced one.
\<close>

fun drop_underscores :: "char option \<Rightarrow> string \<Rightarrow> string option" where
  "drop_underscores prev [] = Some []"
| "drop_underscores prev (c # cs) =
     (if c = CHR ''_'' then
        (case (prev, cs) of
           (Some p, d # ds) \<Rightarrow>
             if is_digit p \<and> is_digit d then drop_underscores (Some c) cs else None
         | _ \<Rightarrow> None)
      else map_option (\<lambda>r. c # r) (drop_underscores (Some c) cs))"

definition split_sign :: "string \<Rightarrow> bool \<times> string" where
  "split_sign s =
     (case s of
        c # cs \<Rightarrow> if c = CHR ''-'' then (True, cs) else if c = CHR ''+'' then (False, cs) else (False, s)
      | [] \<Rightarrow> (False, s))"

text \<open>
  \<open>int(s)\<close> for a string: optional sign, then decimal digits.  The function \<open>rp\<close> stands
  for \<open>repr\<close>, which the error message quotes the argument with.
\<close>

definition py_int :: "(json \<Rightarrow> string) \<Rightarrow> string \<Rightarrow> exn + int" where
  "py_int rp s =
     (let bad = Inl (Exn ''ValueError'' (''invalid literal for int() with base 10: '' @ rp (JStr s)));
          (neg, u) = split_sign (py_strip s)
      in case drop_underscores None u of
           None \<Rightarrow> bad
         | Some ds \<Rightarrow>
             if ds = [] \<or> \<not> list_all is_digit ds then bad
             else if length ds > int_max_str_digits then
               Inl (Exn ''ValueError''
                 (''Exceeds the limit (4300 digits) for integer string conversion: value has '' @
                  digits_of_nat (length ds) @
                  '' digits; use sys.set_int_max_str_digits() to increase the limit''))
             else Inr (if neg then - int (nat_of_digits 0 ds) else int (nat_of_digits 0 ds)))"

subsection \<open>Binary64 arithmetic\<close>

text \<open>
  Python's \<open>float\<close> is IEEE 754 binary64: 53 significant bits, exponents of the least
  significant bit from \<open>-1074\<close> to \<open>971\<close>, every operation rounded to the nearest
  representable number, ties to the even significand.
\<close>

fun bit_length :: "nat \<Rightarrow> nat" where
  "bit_length n = (if n = 0 then 0 else Suc (bit_length (n div 2)))"

declare bit_length.simps [simp del]

text \<open>The integer nearest to \<open>a / b\<close> for \<open>b > 0\<close>, ties to even.\<close>

definition round_half_even :: "int \<Rightarrow> int \<Rightarrow> int" where
  "round_half_even a b =
     (let q = a div b; r = a mod b
      in if 2 * r < b then q else if b < 2 * r then q + 1 else if even q then q else q + 1)"

text \<open>The integer nearest to \<open>(a / d) / 2^e\<close>.\<close>

definition scaled_quotient :: "int \<Rightarrow> int \<Rightarrow> int \<Rightarrow> int" where
  "scaled_quotient a d e =
     (if 0 \<le> e then round_half_even a (d * 2 ^ nat e) else round_half_even (a * 2 ^ nat (- e)) d)"

text \<open>
  The binary64 number nearest to the rational \<open>n / d\<close> (\<open>d > 0\<close>).  With \<open>k\<close> the
  difference of the bit lengths, \<open>2^(k-1) < |n| / d < 2^(k+1)\<close>, so the leading bit of the
  quotient has weight \<open>2^k\<close> or \<open>2^(k-1)\<close>; the significand keeps 53 bits from there,
  fewer below the least exponent (subnormal numbers).  A result of \<open>2^1024\<close> or more is
  infinite.
\<close>

definition round_binary64 :: "int \<Rightarrow> int \<Rightarrow> pyfloat" where
  "round_binary64 n d =
     (if n = 0 then Finite 0 0
      else
        let a = \<bar>n\<bar>;
            k = int (bit_length (nat a)) - int (bit_length (nat d));
            lg = (if (if 0 \<le> k then d * 2 ^ nat k \<le> a else d \<le> a * 2 ^ nat (- k)) then k else k - 1);
            e = max (lg - 52) (- 1074);
            m = scaled_quotient a d e
        in if 971 < e \<or> (e = 971 \<and> 2 ^ 53 \<le> m) then Infinity (n < 0)
           else Finite (if n < 0 then - m else m) e)"

text \<open>The binary64 number nearest to \<open>n * 10^x\<close> and to \<open>m * 2^e\<close>.\<close>

definition round_decimal :: "int \<Rightarrow> int \<Rightarrow> pyfloat" where
  "round_decimal n x = (if 0 \<le> x then round_binary64 (n * 10 ^ nat x) 1 else round_binary64 n (10 ^ nat (- x)))"

definition round_dyadic :: "int \<Rightarrow> int \<Rightarrow> pyfloat" where
  "round_dyadic m e = (if 0 \<le> e then round_binary64 (m * 2 ^ nat e) 1 else round_binary64 m (2 ^ nat (- e)))"

text \<open>\<open>x * y\<close> on floats.\<close>

fun float_mul :: "pyfloat \<Rightarrow> pyfloat \<Rightarrow> pyfloat" where
  "float_mul (Finite m1 e1) (Finite m2 e2) = round_dyadic (m1 * m2) (e1 + e2)"
| "float_mul NaN y = NaN"
| "float_mul x NaN = NaN"
| "float_mul (Infinity s) (Finite m e) = (if m = 0 then NaN else Infinity (s \<noteq> (m < 0)))"
| "float_mul (Finite m e) (Infinity s) = (if m = 0 then NaN else Infinity (s \<noteq> (m < 0)))"
| "float_mul (Infinity s) (Infinity t) = Infinity (s \<noteq> t)"

text \<open>An \<open>int\<close> operand of a float operation is converted first.\<close>

definition float_of_int :: "int \<Rightarrow> exn + pyfloat" where
  "float_of_int n =
     (case round_binary64 n 1 of
        Infinity s \<Rightarrow> Inl (Exn ''OverflowError'' ''int too large to convert to float'')
      | f \<Rightarrow> Inr f)"

text \<open>\<open>int(x)\<close> for a float: truncation towards zero.\<close>

fun py_int_of_float :: "pyfloat \<Rightarrow> exn + int" where
  "py_int_of_float (Finite m e) =
     Inr (if 0 \<le> e then m * 2 ^ nat e
          else if 0 \<le> m then m div 2 ^ nat (- e) else - ((- m) div 2 ^ nat (- e)))"
| "py_int_of_float (Infinity s) = Inl (Exn ''OverflowError'' ''cannot convert float infinity to integer'')"
| "py_int_of_float NaN = Inl (Exn ''ValueError'' ''cannot convert float NaN to integer'')"

text \<open>\<open>a / b\<close> on two \<open>int\<close>s: the correctly rounded quotient.\<close>

definition py_true_div :: "int \<Rightarrow> int \<Rightarrow> exn + pyfloat" where
  "py_true_div a b =
     (if b = 0 then Inl (Exn ''ZeroDivisionError'' ''division by zero'')
      else case round_binary64 (if b < 0 then - a else a) \<bar>b\<bar> of
             Infinity s \<Rightarrow> Inl (Exn ''OverflowError'' ''integer division result too large for a float'')
           | f \<Rightarrow> Inr f)"

text \<open>
  The format specification \<open>.4f\<close>: the exact value rounded to four decimals (ties to
  even), the sign of a negative number kept even when the digits are all zero.
\<close>

definition pad4 :: "string \<Rightarrow> string" where
  "pad4 ds = replicate (4 - length ds) CHR ''0'' @ ds"

fun format_4f :: "pyfloat \<Rightarrow> string" where
  "format_4f (Finite m e) =
     (let r = (if 0 \<le> e then \<bar>m\<bar> * 2 ^ nat e * 10000 else round_half_even (\<bar>m\<bar> * 10000) (2 ^ nat (- e)))
      in (if m < 0 then ''-'' else []) @ digits_of_nat (nat (r div 10000)) @ ''.'' @
         pad4 (digits_of_nat (nat (r mod 10000))))"
| "format_4f (Infinity s) = (if s then ''-inf'' else ''inf'')"
| "format_4f NaN = ''nan''"

text \<open>
  \<open>float(s)\<close> for a string: white space stripped, digit-grouping underscores removed, an
  optional sign, then \<open>inf\<close>, \<open>infinity\<close> or \<open>nan\<close> in any letter case, or a decimal number
  with an optional fraction and an optional exponent.  The decimal value is rounded
  correctly.
\<close>

definition ci_match :: "string \<Rightarrow> (char \<times> char) list \<Rightarrow> bool" where
  "ci_match s pat = list_all2 (\<lambda>c (l, u). c = l \<or> c = u) s pat"

definition pat_inf :: "(char \<times> char) list" where
  "pat_inf = zip ''inf'' ''INF''"

definition pat_infinity :: "(char \<times> char) list" where
  "pat_infinity = zip ''infinity'' ''INFINITY''"

definition pat_nan :: "(char \<times> char) list" where
  "pat_nan = zip ''nan'' ''NAN''"

text \<open>
  A decimal number without its sign, as the pair \<open>(D, x)\<close> of all its digits read as one
  natural number and the power of ten that scales it.
\<close>

definition parse_decimal :: "string \<Rightarrow> (nat \<times> int) option" where
  "parse_decimal s =
     (let ip = takeWhile is_digit s;
          r1 = dropWhile is_digit s;
          (fp, r2) = (case r1 of
                        [] \<Rightarrow> ([], [])
                      | c # cs \<Rightarrow> if c = CHR ''.'' then (takeWhile is_digit cs, dropWhile is_digit cs)
                                  else ([], r1))
      in if ip = [] \<and> fp = [] then None
         else case r2 of
                [] \<Rightarrow> Some (nat_of_digits 0 (ip @ fp), - int (length fp))
              | c # cs \<Rightarrow>
                  if c = CHR ''e'' \<or> c = CHR ''E'' then
                    (let (neg, ds) = split_sign cs
                     in if ds \<noteq> [] \<and> list_all is_digit ds
                        then Some (nat_of_digits 0 (ip @ fp),
                                   (if neg then - int (nat_of_digits 0 ds) else int (nat_of_digits 0 ds))
                                     - int (length fp))
                        else None)
                  else None)"

definition py_float :: "(json \<Rightarrow> string) \<Rightarrow> string \<Rightarrow> exn + pyfloat" where
  "py_float rp s =
     (let bad = Inl (Exn ''ValueError'' (''could not convert string to float: '' @ rp (JStr s)))
      in case drop_underscores None (py_strip s) of
           None \<Rightarrow> bad
         | Some t \<Rightarrow>
             (let (neg, u) = split_sign t
              in if ci_match u pat_inf \<or> ci_match u pat_infinity then Inr (Infinity neg)
                 else if ci_match u pat_nan then Inr NaN
                 else case parse_decimal u of
                        None \<Rightarrow> bad
                      | Some (D, x) \<Rightarrow> Inr (round_decimal (if neg then - int D else int D) x)))"

text \<open>
  \<open>int(float(amount) * 10**18)\<close>, the conversion of the caller's decimal amount to base
  units (\<open>client.py\<close>, line 78).
\<close>

definition amount_to_wei :: "(json \<Rightarrow> string) \<Rightarrow> string \<Rightarrow> exn + int" where
  "amount_to_wei rp amount =
     exn_bind (py_float rp amount) (\<lambda>x.
     exn_bind (float_of_int (10 ^ 18)) (\<lambda>y.
     py_int_of_float (float_mul x y)))"

section \<open>Data model\<close>

text \<open>\<open>types.py\<close>: the outcome record.  \<open>success\<close>, \<open>tx_hash\<close> and \<open>error\<close> hold whatever
  Python value the code stores there (the dataclass does not check its annotations);
  \<open>JNull\<close> is \<open>None\<close>.\<close>

record PaymentResult =
  success :: json
  tx_hash :: json
  error :: json
  payer :: string
  recipient :: string
  amount :: string
  token :: string

text \<open>The \<open>requirements\<close> dictionary that \<open>B402.pay\<close> builds (\<open>client.py\<close>, lines 134-142).\<close>

record requirements =
  req_scheme :: string
  req_asset :: string
  req_payTo :: string
  req_maxAmountRequired :: string
  req_maxTimeoutSeconds :: int
  req_network :: string
  req_relayerContract :: string

text \<open>The typed message that is signed (\<open>wallet.py\<close>, lines 16-23) and its EIP-712 domain
  (lines 25-30).  The nonce bytes are kept as their hexadecimal text.\<close>

record authorization =
  auth_from :: string
  auth_to :: string
  auth_value :: int
  auth_validAfter :: int
  auth_validBefore :: int
  auth_nonce :: string

record eip712_domain =
  domain_name :: string
  domain_version :: string
  domain_chainId :: int
  domain_verifyingContract :: string

text \<open>The payload \<open>process_payment\<close> returns (\<open>wallet.py\<close>, lines 51-67): every field of
  the authorization as text.\<close>

record payload_authorization =
  pa_from :: string
  pa_to :: string
  pa_value :: string
  pa_validAfter :: string
  pa_validBefore :: string
  pa_nonce :: string

record payment_payload =
  x402Version :: int
  pp_scheme :: string
  pp_network :: string
  pp_token :: string
  pp_authorization :: payload_authorization
  pp_signature :: string

record http_response =
  status_code :: int
  body_text :: string
  body_json :: "exn + json"

text \<open>The result dictionary of \<open>ensure_approval\<close> (\<open>approval.py\<close>).\<close>

record approval_status =
  approved :: bool
  allowance :: int
  approval_tx_hash :: "string option"

section \<open>Collaborators\<close>

text \<open>
  Everything the SDK obtains from outside is a field of the record \<open>world\<close>: the process
  environment, the key and address library (\<open>eth_account\<close>, \<open>eth_utils\<close>), the chain node
  behind \<open>web3\<close>, the clock, the random source and the facilitator behind \<open>requests\<close>.
  Each call either raises or returns.
  \<^item> \<open>account_from_key k\<close>: the address of \<open>Account.from_key(k)\<close>;
  \<^item> \<open>call_allowance rpc token owner spender\<close>: the contract read \<open>allowance(owner, spender)\<close>,
    an unsigned 256-bit number;
  \<^item> \<open>get_transaction_count rpc address\<close>;
  \<^item> \<open>send_approve rpc key token spender amount nonce\<close>: everything from building the
    \<open>approve(spender, amount)\<close> transaction to the receipt, returning the transaction hash in
    hexadecimal;
  \<^item> \<open>time_time\<close>: \<open>int(time.time())\<close>; \<open>token_hex\<close>: \<open>secrets.token_hex(32)\<close>;
  \<^item> \<open>sign_typed_data key domain message\<close>: the hexadecimal signature of the encoded message;
  \<^item> \<open>requests_post url payload requirements\<close>: the POST of the JSON body
    \<open>{paymentPayload, paymentRequirements}\<close>;
  \<^item> \<open>py_repr\<close>: Python's \<open>repr\<close> of a value, which only the wording of messages depends on.
\<close>

record world =
  environ_private_key :: "string option"
  account_from_key :: "string \<Rightarrow> exn + string"
  to_checksum_address :: "string \<Rightarrow> exn + string"
  call_allowance :: "string \<Rightarrow> string \<Rightarrow> string \<Rightarrow> string \<Rightarrow> exn + nat"
  get_transaction_count :: "string \<Rightarrow> string \<Rightarrow> exn + int"
  send_approve :: "string \<Rightarrow> string \<Rightarrow> string \<Rightarrow> string \<Rightarrow> int \<Rightarrow> int \<Rightarrow> exn + string"
  time_time :: int
  token_hex :: string
  sign_typed_data :: "string \<Rightarrow> eip712_domain \<Rightarrow> authorization \<Rightarrow> exn + string"
  requests_post :: "string \<Rightarrow> payment_payload \<Rightarrow> requirements \<Rightarrow> exn + http_response"
  py_repr :: "json \<Rightarrow> string"

text \<open>The calls that reach the network are recorded, in order, as events.\<close>

datatype event =
    AllowanceCall string string string string
  | TransactionCountCall string string
  | ApproveTransaction string string string int int
  | HttpPost string payment_payload requirements

text \<open>A computation yields the events it caused and either a raised exception or a
  result; the events of a computation that raises are kept.\<close>

type_synonym 'a io = "event list \<times> (exn + 'a)"

definition io_pure :: "exn + 'a \<Rightarrow> 'a io" where
  "io_pure r = ([], r)"

definition io_call :: "event \<Rightarrow> exn + 'a \<Rightarrow> 'a io" where
  "io_call ev r = ([ev], r)"

definition io_bind :: "'a io \<Rightarrow> ('a \<Rightarrow> 'b io) \<Rightarrow> 'b io" where
  "io_bind m f =
     (case m of
        (tr, Inl e) \<Rightarrow> (tr, Inl e)
      | (tr, Inr x) \<Rightarrow> (case f x of (tr', r) \<Rightarrow> (tr @ tr', r)))"

text \<open>\<open>str(v)\<close> as an f-string inserts it: a string as it is, anything else by \<open>repr\<close>.\<close>

definition py_str :: "world \<Rightarrow> json \<Rightarrow> string" where
  "py_str w v = (case v of JStr s \<Rightarrow> s | _ \<Rightarrow> py_repr w v)"

text \<open>\<open>d[k]\<close> on a dictionary of the program: \<open>KeyError\<close> when the key is missing.\<close>

definition dict_index :: "world \<Rightarrow> (string \<times> 'v) list \<Rightarrow> string \<Rightarrow> exn + 'v" where
  "dict_index w d k =
     (case map_of d k of None \<Rightarrow> Inl (Exn ''KeyError'' (py_repr w (JStr k))) | Some v \<Rightarrow> Inr v)"

section \<open>Allowance gate (\<open>approval.py\<close>)\<close>

definition RPC_URLS :: "(string \<times> string) list" where
  "RPC_URLS =
     [(''mainnet'', ''https://bsc-dataseed1.binance.org''),
      (''testnet'', ''https://data-seed-prebsc-1-s1.binance.org:8545'')]"

text \<open>\<open>check_approval\<close> (lines 36-69); \<open>min_amount\<close> defaults to \<open>0\<close>.\<close>

definition check_approval :: "world \<Rightarrow> string \<Rightarrow> string \<Rightarrow> string \<Rightarrow> string \<Rightarrow> int \<Rightarrow> (bool \<times> nat) io" where
  "check_approval w private_key token_address spender_address network min_amount =
     io_bind (io_pure (dict_index w RPC_URLS network)) (\<lambda>rpc.
     io_bind (io_pure (account_from_key w private_key)) (\<lambda>address.
     io_bind (io_pure (to_checksum_address w token_address)) (\<lambda>tok.
     io_bind (io_pure (to_checksum_address w address)) (\<lambda>owner.
     io_bind (io_pure (to_checksum_address w spender_address)) (\<lambda>spender.
     io_bind (io_call (AllowanceCall rpc tok owner spender) (call_allowance w rpc tok owner spender))
       (\<lambda>allowance.
     io_pure (Inr (min_amount \<le> int allowance, allowance))))))))"

definition min_amount_default :: int where
  "min_amount_default = 0"

text \<open>\<open>approve_token\<close> (lines 72-125); \<open>amount\<close> defaults to \<open>None\<close>.\<close>

definition approve_token :: "world \<Rightarrow> string \<Rightarrow> string \<Rightarrow> string \<Rightarrow> string \<Rightarrow> int option \<Rightarrow> string io" where
  "approve_token w private_key token_address spender_address network amount' =
     io_bind (io_pure (dict_index w RPC_URLS network)) (\<lambda>rpc.
     io_bind (io_pure (account_from_key w private_key)) (\<lambda>address.
     io_bind (io_pure (to_checksum_address w token_address)) (\<lambda>tok.
     (let amt = (case amount' of None \<Rightarrow> 10000 * 10 ^ 18 | Some a \<Rightarrow> a) in
     io_bind (io_call (TransactionCountCall rpc address) (get_transaction_count w rpc address)) (\<lambda>nonce.
     io_bind (io_pure (to_checksum_address w spender_address)) (\<lambda>spender.
     io_bind (io_call (ApproveTransaction rpc tok spender amt nonce)
                (send_approve w rpc private_key tok spender amt nonce)) (\<lambda>h.
     io_pure (Inr (''0x'' @ h)))))))))"

text \<open>\<open>ensure_approval\<close> (lines 128-185).\<close>

definition ensure_approval :: "world \<Rightarrow> string \<Rightarrow> string \<Rightarrow> string \<Rightarrow> string \<Rightarrow> bool \<Rightarrow> approval_status io" where
  "ensure_approval w private_key token_address spender_address network auto_approve =
     io_bind (check_approval w private_key token_address spender_address network min_amount_default)
       (\<lambda>(is_approved, allowance).
     if is_approved then
       io_pure (Inr \<lparr>approved = True, allowance = int allowance, approval_tx_hash = None\<rparr>)
     else if \<not> auto_approve then
       io_pure (Inr \<lparr>approved = False, allowance = 0, approval_tx_hash = None\<rparr>)
     else
       io_bind (approve_token w private_key token_address spender_address network None) (\<lambda>h.
       io_pure (Inr \<lparr>approved = True, allowance = 2 ^ 256 - 1, approval_tx_hash = Some h\<rparr>)))"

section \<open>Authorization signer (\<open>wallet.py\<close>)\<close>

text \<open>Lines 12-23: the clock is read, the nonce drawn and the message assembled.\<close>

definition build_authorization :: "world \<Rightarrow> requirements \<Rightarrow> string \<Rightarrow> exn + authorization" where
  "build_authorization w reqs address =
     (let now = time_time w;
          valid_before = now + req_maxTimeoutSeconds reqs;
          nonce = ''0x'' @ token_hex w
      in exn_bind (to_checksum_address w address) (\<lambda>a_from.
         exn_bind (to_checksum_address w (req_payTo reqs)) (\<lambda>a_to.
         exn_bind (py_int (py_repr w) (req_maxAmountRequired reqs)) (\<lambda>v.
         Inr \<lparr>auth_from = a_from, auth_to = a_to, auth_value = v, auth_validAfter = 0,
              auth_validBefore = valid_before, auth_nonce = drop 2 nonce\<rparr>))))"

definition process_payment :: "world \<Rightarrow> requirements \<Rightarrow> string \<Rightarrow> exn + payment_payload" where
  "process_payment w reqs private_key =
     exn_bind (account_from_key w private_key) (\<lambda>address.
     exn_bind (build_authorization w reqs address) (\<lambda>au.
     exn_bind (to_checksum_address w (req_relayerContract reqs)) (\<lambda>vc.
     (let dom = \<lparr>domain_name = ''B402'', domain_version = ''1'',
                 domain_chainId = (if req_network reqs = ''bsc'' then 56 else 97),
                 domain_verifyingContract = vc\<rparr>
      in exn_bind (sign_typed_data w private_key dom au) (\<lambda>sg.
         exn_bind (py_str_int (auth_value au)) (\<lambda>sv.
         exn_bind (py_str_int (auth_validAfter au)) (\<lambda>sa.
         exn_bind (py_str_int (auth_validBefore au)) (\<lambda>sb.
         Inr \<lparr>x402Version = 1, pp_scheme = ''exact'', pp_network = req_network reqs,
              pp_token = req_asset reqs,
              pp_authorization =
                \<lparr>pa_from = auth_from au, pa_to = auth_to au, pa_value = sv,
                 pa_validAfter = sa, pa_validBefore = sb, pa_nonce = ''0x'' @ auth_nonce au\<rparr>,
              pp_signature = ''0x'' @ sg\<rparr>))))))))"

section \<open>Payment orchestrator (\<open>client.py\<close>)\<close>

definition TOKENS :: "(string \<times> (string \<times> string) list) list" where
  "TOKENS =
     [(''mainnet'',
         [(''USD1'', ''0x8d0d000ee44948fc98c9b98a4fa4921476f08b0d''),
          (''USDT'', ''0x55d398326f99059fF775485246999027B3197955''),
          (''USDC'', ''0x8AC76a51cc950d9822D68b83fE1Ad97B32Cd580d'')]),
      (''testnet'',
         [(''USDT'', ''0x337610d27c682E347C9cD60BD4b3b107C9d34dDd'')])]"

definition RELAYERS :: "(string \<times> string) list" where
  "RELAYERS =
     [(''mainnet'', ''0xE1C2830d5DDd6B49E9c46EbE03a98Cb44CD8eA5a''),
      (''testnet'', ''0x62150F2c3A29fDA8bCf22c0F22Eb17270FCBb78A'')]"

text \<open>An instance of the class \<open>B402\<close>.  The flag \<open>debug\<close> only switches console output
  on, which is not modelled.\<close>

record B402 =
  network :: string
  facilitator_url :: string
  debug :: bool

definition rstrip_slash :: "string \<Rightarrow> string" where
  "rstrip_slash s = rev (dropWhile (\<lambda>c. c = CHR ''/'') (rev s))"

definition B402_init :: "string \<Rightarrow> string \<Rightarrow> bool \<Rightarrow> B402" where
  "B402_init network' facilitator_url' debug' =
     \<lparr>network = network', facilitator_url = rstrip_slash facilitator_url', debug = debug'\<rparr>"

text \<open>The failure shape every early return of \<open>pay\<close> builds.\<close>

definition failure :: "string \<Rightarrow> string \<Rightarrow> string \<Rightarrow> string \<Rightarrow> string \<Rightarrow> PaymentResult" where
  "failure msg payer' recipient' amount' token' =
     \<lparr>success = JBool False, tx_hash = JNull, error = JStr msg, payer = payer',
      recipient = recipient', amount = amount', token = token'\<rparr>"

text \<open>Lines 183-215: the settle request and the final result.\<close>

definition pay_settle ::
  "world \<Rightarrow> B402 \<Rightarrow> string \<Rightarrow> string \<Rightarrow> string \<Rightarrow> string \<Rightarrow> payment_payload \<Rightarrow> requirements
     \<Rightarrow> PaymentResult io" where
  "pay_settle w self address recipient' amount' token' payload reqs =
     io_bind (io_call (HttpPost (facilitator_url self @ ''/settle'') payload reqs)
                (requests_post w (facilitator_url self @ ''/settle'') payload reqs)) (\<lambda>settle_response.
     if status_code settle_response \<noteq> 200 then
       io_bind (io_pure (py_str_int (status_code settle_response))) (\<lambda>sc.
       io_pure (Inr (failure (''Settle request failed: HTTP '' @ sc @ '' - '' @ body_text settle_response)
                       address recipient' amount' token')))
     else
       io_bind (io_pure (body_json settle_response)) (\<lambda>settle_data.
       io_bind (io_pure (dict_get settle_data ''success'' (JBool False))) (\<lambda>s1.
       io_bind (io_pure
                 (if \<not> truthy s1 then
                    exn_bind (dict_get settle_data ''errorReason'' (JStr ''Unknown error'')) (\<lambda>error_detail.
                    Inr (if truthy settle_data
                         then JStr (py_str w error_detail @ '' | Response: '' @ py_repr w settle_data)
                         else error_detail))
                  else Inr JNull)) (\<lambda>error_detail.
       io_bind (io_pure (dict_get settle_data ''success'' (JBool False))) (\<lambda>s2.
       io_bind (io_pure (dict_get settle_data ''transaction'' JNull)) (\<lambda>tx.
       io_pure (Inr \<lparr>success = s2, tx_hash = tx, error = error_detail, payer = address,
                     recipient = recipient', amount = amount', token = token'\<rparr>)))))))"

text \<open>Lines 150-181: the verify request; settle follows only a valid answer.\<close>

definition pay_verify ::
  "world \<Rightarrow> B402 \<Rightarrow> string \<Rightarrow> string \<Rightarrow> string \<Rightarrow> string \<Rightarrow> payment_payload \<Rightarrow> requirements
     \<Rightarrow> PaymentResult io" where
  "pay_verify w self address recipient' amount' token' payload reqs =
     io_bind (io_call (HttpPost (facilitator_url self @ ''/verify'') payload reqs)
                (requests_post w (facilitator_url self @ ''/verify'') payload reqs)) (\<lambda>verify_response.
     if status_code verify_response \<noteq> 200 then
       io_bind (io_pure (py_str_int (status_code verify_response))) (\<lambda>sc.
       io_pure (Inr (failure (''Verify request failed: HTTP '' @ sc @ '' - '' @ body_text verify_response)
                       address recipient' amount' token')))
     else
       io_bind (io_pure (body_json verify_response)) (\<lambda>verify_data.
       io_bind (io_pure (dict_get verify_data ''isValid'' JNull)) (\<lambda>is_valid.
       if \<not> truthy is_valid then
         io_bind (io_pure (dict_get verify_data ''invalidReason'' (JStr ''Invalid signature''))) (\<lambda>error_msg.
         io_pure (Inr (failure (py_str w error_msg @ '' | Response: '' @ py_repr w verify_data)
                         address recipient' amount' token')))
       else pay_settle w self address recipient' amount' token' payload reqs)))"

text \<open>Lines 133-148: the requirements are assembled and signed.\<close>

definition pay_proceed ::
  "world \<Rightarrow> B402 \<Rightarrow> string \<Rightarrow> string \<Rightarrow> string \<Rightarrow> string \<Rightarrow> string \<Rightarrow> string \<Rightarrow> int \<Rightarrow> int
     \<Rightarrow> PaymentResult io" where
  "pay_proceed w self private_key address recipient' amount' token' token_address amount_wei timeout_seconds =
     io_bind (io_pure (py_str_int amount_wei)) (\<lambda>amount_text.
     io_bind (io_pure (dict_index w RELAYERS (network self))) (\<lambda>relayer.
     (let reqs = \<lparr>req_scheme = ''exact'', req_asset = token_address, req_payTo = recipient',
                  req_maxAmountRequired = amount_text, req_maxTimeoutSeconds = timeout_seconds,
                  req_network = (if network self = ''mainnet'' then ''bsc'' else ''bsc-testnet''),
                  req_relayerContract = relayer\<rparr>
      in io_bind (io_pure (process_payment w reqs private_key)) (\<lambda>payload.
         pay_verify w self address recipient' amount' token' payload reqs))))"

definition default_cap :: int where
  "default_cap = 10000 * 10 ^ 18"

text \<open>Lines 89-131: what happens when the allowance check says "not approved".  The
  approval runs inside its own \<open>try\<close>; whatever it raises becomes a failure result.\<close>

definition pay_approve ::
  "world \<Rightarrow> B402 \<Rightarrow> string \<Rightarrow> string \<Rightarrow> string \<Rightarrow> string \<Rightarrow> string \<Rightarrow> string \<Rightarrow> int \<Rightarrow> int
     \<Rightarrow> bool \<Rightarrow> nat \<Rightarrow> PaymentResult io" where
  "pay_approve w self private_key address recipient' amount' token' token_address amount_wei
       timeout_seconds auto_approve current_allowance =
     (if \<not> auto_approve then
        io_bind (io_pure (py_true_div (int current_allowance) (10 ^ 18))) (\<lambda>allowance_readable.
        io_bind (io_pure (py_true_div amount_wei (10 ^ 18))) (\<lambda>needed_readable.
        io_pure (Inr (failure
          (''Insufficient allowance. Have: '' @ format_4f allowance_readable @ '' '' @ token' @
           '', Need: '' @ format_4f needed_readable @ '' '' @ token' @
           ''. Run: b402.setup('' @ [CHR 0x27] @ token' @ [CHR 0x27] @
           '') or pay(..., auto_approve=True)'')
          address recipient' amount' token'))))
      else
        (case io_bind (io_pure (dict_index w RELAYERS (network self))) (\<lambda>relayer.
                approve_token w private_key token_address relayer (network self)
                  (Some (max amount_wei default_cap))) of
           (tr, Inl approve_error) \<Rightarrow>
             (tr, Inr (failure
                (''Auto-approval failed: '' @ exn_str approve_error @
                 ''. Please run: b402.setup('' @ [CHR 0x27] @ token' @ [CHR 0x27] @ '')'')
                address recipient' amount' token'))
         | (tr, Inr h) \<Rightarrow>
             io_bind (tr, Inr h) (\<lambda>h.
             pay_proceed w self private_key address recipient' amount' token' token_address
               amount_wei timeout_seconds)))"

text \<open>Lines 62-87: the body of the \<open>try\<close> block up to the allowance check.\<close>

definition pay_try ::
  "world \<Rightarrow> B402 \<Rightarrow> string \<Rightarrow> string \<Rightarrow> string \<Rightarrow> string \<Rightarrow> int \<Rightarrow> bool \<Rightarrow> PaymentResult io" where
  "pay_try w self private_key amount' token' recipient' timeout_seconds auto_approve =
     io_bind (io_pure (account_from_key w private_key)) (\<lambda>address.
     io_bind (io_pure (dict_index w TOKENS (network self))) (\<lambda>tokens.
     (case map_of tokens token' of
        None \<Rightarrow>
          io_pure (Inr (failure (''Token '' @ token' @ '' not supported on '' @ network self)
                          address recipient' amount' token'))
      | Some token_address \<Rightarrow>
          if token_address = [] then
            io_pure (Inr (failure (''Token '' @ token' @ '' not supported on '' @ network self)
                            address recipient' amount' token'))
          else
            io_bind (io_pure (amount_to_wei (py_repr w) amount')) (\<lambda>amount_wei.
            io_bind (io_pure (dict_index w RELAYERS (network self))) (\<lambda>relayer.
            io_bind (check_approval w private_key token_address relayer (network self) amount_wei)
              (\<lambda>(is_approved, current_allowance).
            if \<not> is_approved then
              pay_approve w self private_key address recipient' amount' token' token_address
                amount_wei timeout_seconds auto_approve current_allowance
            else
              pay_proceed w self private_key address recipient' amount' token' token_address
                amount_wei timeout_seconds))))))"

text \<open>\<open>B402.pay\<close> (lines 30-225).  The result is \<open>Inr\<close> of the returned \<open>PaymentResult\<close>;
  \<open>Inl\<close> would be an exception leaving the method.\<close>

definition pay :: "world \<Rightarrow> B402 \<Rightarrow> string \<Rightarrow> string \<Rightarrow> string \<Rightarrow> int \<Rightarrow> bool \<Rightarrow> PaymentResult io" where
  "pay w self amount' token' recipient' timeout_seconds auto_approve =
     (case environ_private_key w of
        None \<Rightarrow>
          io_pure (Inr (failure ''PRIVATE_KEY environment variable not set'' [] recipient' amount' token'))
      | Some private_key \<Rightarrow>
          if private_key = [] then
            io_pure (Inr (failure ''PRIVATE_KEY environment variable not set'' [] recipient' amount' token'))
          else
            (case pay_try w self private_key amount' token' recipient' timeout_seconds auto_approve of
               (tr, Inl e) \<Rightarrow> (tr, Inr (failure (exn_str e) [] recipient' amount' token'))
             | (tr, Inr r) \<Rightarrow> (tr, Inr r)))"

text \<open>\<open>B402.check_approval\<close> (lines 233-258) and \<open>B402.setup\<close> (lines 260-296).\<close>

definition B402_check_approval :: "world \<Rightarrow> B402 \<Rightarrow> string \<Rightarrow> (bool \<times> nat) io" where
  "B402_check_approval w self token' =
     (case environ_private_key w of
        None \<Rightarrow> io_pure (Inl (Exn ''ValueError'' ''PRIVATE_KEY environment variable not set''))
      | Some private_key \<Rightarrow>
          if private_key = [] then
            io_pure (Inl (Exn ''ValueError'' ''PRIVATE_KEY environment variable not set''))
          else
            io_bind (io_pure (dict_index w TOKENS (network self))) (\<lambda>tokens.
            (case map_of tokens token' of
               None \<Rightarrow>
                 io_pure (Inl (Exn ''ValueError''
                   (''Token '' @ token' @ '' not supported on '' @ network self)))
             | Some token_address \<Rightarrow>
                 if token_address = [] then
                   io_pure (Inl (Exn ''ValueError''
                     (''Token '' @ token' @ '' not supported on '' @ network self)))
                 else
                   io_bind (io_pure (dict_index w RELAYERS (network self))) (\<lambda>relayer.
                   check_approval w private_key token_address relayer (network self)
                     min_amount_default))))"

definition B402_setup :: "world \<Rightarrow> B402 \<Rightarrow> string \<Rightarrow> bool \<Rightarrow> approval_status io" where
  "B402_setup w self token' auto_approve =
     (case environ_private_key w of
        None \<Rightarrow> io_pure (Inl (Exn ''ValueError'' ''PRIVATE_KEY environment variable not set''))
      | Some private_key \<Rightarrow>
          if private_key = [] then
            io_pure (Inl (Exn ''ValueError'' ''PRIVATE_KEY environment variable not set''))
          else
            io_bind (io_pure (dict_index w TOKENS (network self))) (\<lambda>tokens.
            (case map_of tokens token' of
               None \<Rightarrow>
                 io_pure (Inl (Exn ''ValueError''
                   (''Token '' @ token' @ '' not supported on '' @ network self)))
             | Some token_address \<Rightarrow>
                 if token_address = [] then
                   io_pure (Inl (Exn ''ValueError''
                     (''Token '' @ token' @ '' not supported on '' @ network self)))
                 else
                   io_bind (io_pure (dict_index w RELAYERS (network self))) (\<lambda>relayer.
                   ensure_approval w private_key token_address relayer (network self)
                     auto_approve))))"

section \<open>Vocabulary of the properties\<close>

text \<open>The two facilitator endpoints, and the events that are POSTs to the facilitator.\<close>

definition verify_url :: "B402 \<Rightarrow> string" where
  "verify_url self = facilitator_url self @ ''/verify''"

definition settle_url :: "B402 \<Rightarrow> string" where
  "settle_url self = facilitator_url self @ ''/settle''"

fun is_http_post :: "event \<Rightarrow> bool" where
  "is_http_post (HttpPost url p q) = True"
| "is_http_post ev = False"

definition no_http :: "event list \<Rightarrow> bool" where
  "no_http tr = list_all (\<lambda>ev. \<not> is_http_post ev) tr"

fun is_approve :: "event \<Rightarrow> bool" where
  "is_approve (ApproveTransaction rpc tok spender amt nonce) = True"
| "is_approve ev = False"

text \<open>The verify request for a payload and its requirements "returned Valid": the POST
  returned, with status 200, a body that decodes to a dictionary whose \<open>isValid\<close> is true
  in Python's sense.\<close>

definition verify_valid :: "world \<Rightarrow> B402 \<Rightarrow> payment_payload \<Rightarrow> requirements \<Rightarrow> bool" where
  "verify_valid w self p q =
     (case requests_post w (verify_url self) p q of
        Inl e \<Rightarrow> False
      | Inr resp \<Rightarrow>
          status_code resp = 200 \<and>
          (case body_json resp of
             Inl e \<Rightarrow> False
           | Inr d \<Rightarrow> (case dict_get d ''isValid'' JNull of Inl e \<Rightarrow> False | Inr v \<Rightarrow> truthy v)))"

text \<open>The failure shape: \<open>success=False\<close>, no transaction, an error message.\<close>

definition is_failure :: "PaymentResult \<Rightarrow> string \<Rightarrow> string \<Rightarrow> string \<Rightarrow> bool" where
  "is_failure r recipient' amount' token' =
     (success r = JBool False \<and> tx_hash r = JNull \<and> (\<exists>m. error r = JStr m) \<and>
      recipient r = recipient' \<and> amount r = amount' \<and> token r = token' \<and>
      PaymentResult.more r = ())"

text \<open>What \<open>pay\<close> returns once the settle request has been posted: the result of
  lines 183-215, an exception raised there being caught by the handler of line 217.\<close>

definition settle_outcome ::
  "world \<Rightarrow> B402 \<Rightarrow> string \<Rightarrow> string \<Rightarrow> string \<Rightarrow> string \<Rightarrow> payment_payload \<Rightarrow> requirements
     \<Rightarrow> PaymentResult" where
  "settle_outcome w self a rc am tk p q =
     (case snd (pay_settle w self a rc am tk p q) of
        Inl e \<Rightarrow> failure (exn_str e) [] rc am tk
      | Inr r \<Rightarrow> r)"

text \<open>The three ways the body of the \<open>try\<close> block can end, by the POSTs it made.\<close>

definition pay_outcome ::
  "world \<Rightarrow> B402 \<Rightarrow> string \<Rightarrow> string \<Rightarrow> string \<Rightarrow> event list \<Rightarrow> exn + PaymentResult \<Rightarrow> bool" where
  "pay_outcome w self rc am tk tr res =
     ((no_http tr \<and> (case res of Inl e \<Rightarrow> True | Inr r \<Rightarrow> is_failure r rc am tk))
      \<or> (\<exists>pre p q. tr = pre @ [HttpPost (verify_url self) p q] \<and>
            no_http pre \<and> \<not> verify_valid w self p q \<and>
            (case res of Inl e \<Rightarrow> True | Inr r \<Rightarrow> is_failure r rc am tk))
      \<or> (\<exists>pre a p q. tr = pre @ [HttpPost (verify_url self) p q, HttpPost (settle_url self) p q] \<and>
            no_http pre \<and> verify_valid w self p q \<and>
            res = snd (pay_settle w self a rc am tk p q)))"

section \<open>A concrete set of collaborators\<close>

text \<open>
  The theorems below are instantiated on this world: the credential is set, every
  address is accepted, the chain reports an allowance of zero, the clock reads
  1700000000, the facilitator answers verify with \<open>isValid: true\<close> and settle with
  \<open>success: true\<close> and a transaction.
\<close>

definition example_repr :: "json \<Rightarrow> string" where
  "example_repr v = (case v of JStr s \<Rightarrow> [CHR 0x27] @ s @ [CHR 0x27] | _ \<Rightarrow> ''{...}'')"

definition example_response :: "json \<Rightarrow> http_response" where
  "example_response d = \<lparr>status_code = 200, body_text = [], body_json = Inr d\<rparr>"

definition example_world :: world where
  "example_world =
     \<lparr>environ_private_key = Some ''0x01'',
      account_from_key = (\<lambda>k. Inr ''0xPayer''),
      to_checksum_address = (\<lambda>a. Inr a),
      call_allowance = (\<lambda>rpc tok owner spender. Inr 0),
      get_transaction_count = (\<lambda>rpc a. Inr 7),
      send_approve = (\<lambda>rpc k tok spender amt n. Inr ''a1''),
      time_time = 1700000000,
      token_hex = ''00'',
      sign_typed_data = (\<lambda>k d m. Inr ''5157''),
      requests_post = (\<lambda>url p r.
         if url = ''https://facilitator.b402.ai/verify''
         then Inr (example_response (JObj [(''isValid'', JBool True)]))
         else Inr (example_response (JObj [(''success'', JBool True), (''transaction'', JStr ''0x1234'')]))),
      py_repr = example_repr\<rparr>"

definition example_client :: B402 where
  "example_client = B402_init ''mainnet'' ''https://facilitator.b402.ai'' False"

definition example_requirements :: requirements where
  "example_requirements =
     \<lparr>req_scheme = ''exact'', req_asset = ''0x55d398326f99059fF775485246999027B3197955'',
      req_payTo = ''0xABCD'', req_maxAmountRequired = ''10000000000000000'',
      req_maxTimeoutSeconds = 3600, req_network = ''bsc'',
      req_relayerContract = ''0xE1C2830d5DDd6B49E9c46EbE03a98Cb44CD8eA5a''\<rparr>"

definition example_authorization :: authorization where
  "example_authorization =
     \<lparr>auth_from = ''0xPayer'', auth_to = ''0xABCD'', auth_value = 10000000000000000,
      auth_validAfter = 0, auth_validBefore = 1700003600, auth_nonce = ''00''\<rparr>"

definition example_domain :: eip712_domain where
  "example_domain =
     \<lparr>domain_name = ''B402'', domain_version = ''1'', domain_chainId = 56,
      domain_verifyingContract = ''0xE1C2830d5DDd6B49E9c46EbE03a98Cb44CD8eA5a''\<rparr>"

definition example_payload :: payment_payload where
  "example_payload =
     \<lparr>x402Version = 1, pp_scheme = ''exact'', pp_network = ''bsc'',
      pp_token = ''0x55d398326f99059fF775485246999027B3197955'',
      pp_authorization =
        \<lparr>pa_from = ''0xPayer'', pa_to = ''0xABCD'', pa_value = ''10000000000000000'',
         pa_validAfter = ''0'', pa_validBefore = ''1700003600'', pa_nonce = ''0x00''\<rparr>,
      pp_signature = ''0x5157''\<rparr>"

definition example_allowance_call :: event where
  "example_allowance_call =
     AllowanceCall ''https://bsc-dataseed1.binance.org''
       ''0x55d398326f99059fF775485246999027B3197955'' ''0xPayer''
       ''0xE1C2830d5DDd6B49E9c46EbE03a98Cb44CD8eA5a''"

definition example_like :: "world \<Rightarrow> bool" where
  "example_like w =
     (environ_private_key w = Some ''0x01'' \<and>
      account_from_key w = (\<lambda>k. Inr ''0xPayer'') \<and>
      to_checksum_address w = Inr \<and>
      get_transaction_count w = (\<lambda>rpc a. Inr 7) \<and>
      send_approve w = (\<lambda>rpc k tok spender amt n. Inr ''a1'') \<and>
      time_time w = 1700000000 \<and>
      token_hex w = ''00'' \<and>
      sign_typed_data w = (\<lambda>k d m. Inr ''5157''))"

definition example_verify_post :: event where
  "example_verify_post = HttpPost ''https://facilitator.b402.ai/verify'' example_payload example_requirements"

definition example_settle_post :: event where
  "example_settle_post = HttpPost ''https://facilitator.b402.ai/settle'' example_payload example_requirements"

definition example_approve_calls :: "event list" where
  "example_approve_calls =
     [TransactionCountCall ''https://bsc-dataseed1.binance.org'' ''0xPayer'',
      ApproveTransaction ''https://bsc-dataseed1.binance.org''
        ''0x55d398326f99059fF775485246999027B3197955''
        ''0xE1C2830d5DDd6B49E9c46EbE03a98Cb44CD8eA5a'' (10000 * 10 ^ 18) 7]"

definition example_success :: PaymentResult where
  "example_success =
     \<lparr>success = JBool True, tx_hash = JStr ''0x1234'', error = JNull, payer = ''0xPayer'',
      recipient = ''0xABCD'', amount = ''0.01'', token = ''USDT''\<rparr>"

definition world_no_transaction :: world where
  "world_no_transaction =
     example_world\<lparr>requests_post := (\<lambda>url p r.
         if url = ''https://facilitator.b402.ai/verify''
         then Inr (example_response (JObj [(''isValid'', JBool True)]))
         else Inr (example_response (JObj [(''success'', JBool True)])))\<rparr>"

definition world_settle_down :: world where
  "world_settle_down =
     example_world\<lparr>requests_post := (\<lambda>url p r.
         if url = ''https://facilitator.b402.ai/verify''
         then Inr (example_response (JObj [(''isValid'', JBool True)]))
         else Inl (Exn ''ConnectionError'' ''connection refused''))\<rparr>"

definition world_rpc_down :: world where
  "world_rpc_down =
     example_world\<lparr>call_allowance :=
        (\<lambda>rpc tok owner spender. Inl (Exn ''ConnectionError'' ''connection refused''))\<rparr>"

definition example_insufficient :: string where
  "example_insufficient =
     ''Insufficient allowance. Have: 0.0000 USDT, Need: 0.0100 USDT. '' @
     ''Run: b402.setup('' @ [CHR 0x27] @ ''USDT'' @ [CHR 0x27] @ '') or pay(..., auto_approve=True)''"

definition world_no_key :: world where
  "world_no_key = example_world\<lparr>environ_private_key := None\<rparr>"

definition world_bad_key :: world where
  "world_bad_key = example_world\<lparr>account_from_key := (\<lambda>k. Inl (Exn ''ValueError'' ''bad key''))\<rparr>"

definition world_settle_error :: world where
  "world_settle_error =
     example_world\<lparr>requests_post := (\<lambda>url p r.
         if url = ''https://facilitator.b402.ai/verify''
         then Inr (example_response (JObj [(''isValid'', JBool True)]))
         else Inr \<lparr>status_code = 500, body_text = ''Internal Server Error'',
                   body_json = Inl (Exn ''JSONDecodeError'' ''Expecting value'')\<rparr>)\<rparr>"

definition world_settle_refused :: world where
  "world_settle_refused =
     example_world\<lparr>requests_post := (\<lambda>url p r.
         if url = ''https://facilitator.b402.ai/verify''
         then Inr (example_response (JObj [(''isValid'', JBool True)]))
         else Inr (example_response (JObj [(''success'', JBool False), (''errorReason'', JStr ''nonce used'')])))\<rparr>"

definition world_low_allowance :: world where
  "world_low_allowance =
     example_world\<lparr>call_allowance := (\<lambda>rpc tok owner spender. Inr 5000000000000000)\<rparr>"

section \<open>Properties\<close>

subsection \<open>Rules for the two sequencing operators\<close>

lemma exn_bind_Inl [simp]: "exn_bind (Inl e) f = Inl e"
  by (simp add: exn_bind_def)

lemma exn_bind_Inr [simp]: "exn_bind (Inr x) f = f x"
  by (simp add: exn_bind_def)

lemma exn_bind_eq_Inr: "exn_bind m f = Inr y \<longleftrightarrow> (\<exists>x. m = Inr x \<and> f x = Inr y)"
  by (cases m) simp_all

lemma io_bind_pure_Inl [simp]: "io_bind (io_pure (Inl e)) f = ([], Inl e)"
  by (simp add: io_bind_def io_pure_def)

lemma io_bind_pure_Inr [simp]: "io_bind (io_pure (Inr x)) f = f x"
  by (simp add: io_bind_def io_pure_def split: prod.splits)

lemma io_bind_call_Inl [simp]: "io_bind (io_call ev (Inl e)) f = ([ev], Inl e)"
  by (simp add: io_bind_def io_call_def)

lemma io_bind_call_Inr [simp]: "io_bind (io_call ev (Inr x)) f = (ev # fst (f x), snd (f x))"
  by (simp add: io_bind_def io_call_def split: prod.splits)

subsection \<open>Evaluations on the concrete collaborators\<close>

lemma py_int_example: "py_int rp ''10000000000000000'' = Inr 10000000000000000"
  by (simp add: py_int_def py_strip_def is_space_def split_sign_def is_digit_def digit_val_def
      digit_table_def int_max_str_digits_def)

lemma build_authorization_example:
  "build_authorization example_world example_requirements ''0xPayer'' = Inr example_authorization"
  by (simp add: build_authorization_def example_world_def example_requirements_def
      example_authorization_def py_int_example)

lemma py_str_int_examples:
  "py_str_int 0 = Inr ''0''"
  "py_str_int 1700003600 = Inr ''1700003600''"
  "py_str_int 10000000000000000 = Inr ''10000000000000000''"
  by (simp_all add: py_str_int_def digits_of_nat.simps digit_char_def int_max_str_digits_def)

lemma process_payment_example:
  "process_payment example_world example_requirements ''0x01'' = Inr example_payload"
proof -
  have key: "account_from_key example_world ''0x01'' = Inr ''0xPayer''"
    and chk: "to_checksum_address example_world (req_relayerContract example_requirements)
                = Inr ''0xE1C2830d5DDd6B49E9c46EbE03a98Cb44CD8eA5a''"
    and sg: "\<And>d m. sign_typed_data example_world ''0x01'' d m = Inr ''5157''"
    by (simp_all add: example_world_def example_requirements_def)
  show ?thesis
    unfolding process_payment_def
    by (simp add: key build_authorization_example chk sg Let_def)
       (simp add: example_authorization_def py_str_int_examples example_payload_def
          example_requirements_def)
qed

subsection \<open>The validity window of the signed authorization\<close>

text \<open>
  Claim C1, as amended.  Whenever the signer returns a payload, the message it signed
  has \<open>validAfter = 0\<close> and \<open>validBefore\<close> equal to the clock reading plus the requested
  timeout; so \<open>validBefore - validAfter\<close> is the clock reading plus the timeout, for every
  timeout (in particular for those of at least 1).  The payload carries the two values as
  decimal text.
\<close>

theorem process_payment_validity_window:
  assumes "process_payment w reqs private_key = Inr p"
  shows "\<exists>address au dom sg.
           account_from_key w private_key = Inr address \<and>
           build_authorization w reqs address = Inr au \<and>
           sign_typed_data w private_key dom au = Inr sg \<and>
           auth_validAfter au = 0 \<and>
           auth_validBefore au = time_time w + req_maxTimeoutSeconds reqs \<and>
           auth_validBefore au - auth_validAfter au = time_time w + req_maxTimeoutSeconds reqs \<and>
           py_str_int 0 = Inr (pa_validAfter (pp_authorization p)) \<and>
           py_str_int (time_time w + req_maxTimeoutSeconds reqs)
             = Inr (pa_validBefore (pp_authorization p))"
proof -
  from assms obtain address au vc sg sv sa sb where
    a: "account_from_key w private_key = Inr address"
    and b: "build_authorization w reqs address = Inr au"
    and s: "sign_typed_data w private_key
              \<lparr>domain_name = ''B402'', domain_version = ''1'',
               domain_chainId = (if req_network reqs = ''bsc'' then 56 else 97),
               domain_verifyingContract = vc\<rparr> au = Inr sg"
    and sa: "py_str_int (auth_validAfter au) = Inr sa"
    and sb: "py_str_int (auth_validBefore au) = Inr sb"
    and p: "p = \<lparr>x402Version = 1, pp_scheme = ''exact'', pp_network = req_network reqs,
              pp_token = req_asset reqs,
              pp_authorization =
                \<lparr>pa_from = auth_from au, pa_to = auth_to au, pa_value = sv,
                 pa_validAfter = sa, pa_validBefore = sb, pa_nonce = ''0x'' @ auth_nonce au\<rparr>,
              pp_signature = ''0x'' @ sg\<rparr>"
    unfolding process_payment_def Let_def exn_bind_eq_Inr by auto
  from b have w: "auth_validAfter au = 0"
    "auth_validBefore au = time_time w + req_maxTimeoutSeconds reqs"
    unfolding build_authorization_def Let_def exn_bind_eq_Inr by auto
  show ?thesis
    using a b s sa sb w unfolding p by (intro exI [of _ address] exI [of _ au] exI [of _ sg]) auto
qed

theorem process_payment_validity_window_witness:
  "process_payment example_world example_requirements ''0x01'' = Inr example_payload \<and>
   (\<exists>address au dom sg.
      account_from_key example_world ''0x01'' = Inr address \<and>
      build_authorization example_world example_requirements address = Inr au \<and>
      sign_typed_data example_world ''0x01'' dom au = Inr sg \<and>
      auth_validAfter au = 0 \<and>
      auth_validBefore au = 1700003600 \<and>
      auth_validBefore au - auth_validAfter au = 1700003600 \<and>
      py_str_int 0 = Inr ''0'' \<and>
      py_str_int 1700003600 = Inr ''1700003600'')"
proof -
  have t: "time_time example_world + req_maxTimeoutSeconds example_requirements = 1700003600"
    by (simp add: example_world_def example_requirements_def)
  have a: "pa_validAfter (pp_authorization example_payload) = ''0''"
    "pa_validBefore (pp_authorization example_payload) = ''1700003600''"
    by (simp_all add: example_payload_def)
  show ?thesis
    using process_payment_validity_window [OF process_payment_example]
    unfolding t a by (simp add: process_payment_example)
qed

text \<open>
  The claim as the specification words it fails: with the clock at 1700000000 and a
  timeout of 3600 seconds the difference is 1700003600.
\<close>

theorem validity_window_counterexample:
  "1 \<le> req_maxTimeoutSeconds example_requirements \<and>
   build_authorization example_world example_requirements ''0xPayer'' = Inr example_authorization \<and>
   process_payment example_world example_requirements ''0x01'' = Inr example_payload \<and>
   auth_validBefore example_authorization - auth_validAfter example_authorization
     \<noteq> req_maxTimeoutSeconds example_requirements"
  by (simp add: build_authorization_example process_payment_example)
     (simp add: example_authorization_def example_requirements_def)

subsection \<open>How a call of \<open>pay\<close> can end\<close>

lemma no_http_simps [simp]:
  "no_http []"
  "no_http (ev # tr) \<longleftrightarrow> \<not> is_http_post ev \<and> no_http tr"
  "no_http (tr @ tr') \<longleftrightarrow> no_http tr \<and> no_http tr'"
  by (simp_all add: no_http_def)

lemma is_failure_failure [simp]: "is_failure (failure m a rc am tk) rc am tk"
  by (simp add: is_failure_def failure_def)

lemma fst_io_pure [simp]: "fst (io_pure r) = []" and snd_io_pure [simp]: "snd (io_pure r) = r"
  by (simp_all add: io_pure_def)
lemma fst_io_call [simp]: "fst (io_call ev r) = [ev]" and snd_io_call [simp]: "snd (io_call ev r) = r"
  by (simp_all add: io_call_def)
lemma fst_io_bind: "fst (io_bind m f) = (case snd m of Inl e \<Rightarrow> fst m | Inr x \<Rightarrow> fst m @ fst (f x))"
  by (cases m) (auto simp: io_bind_def split: sum.splits prod.splits)
lemma snd_io_bind: "snd (io_bind m f) = (case snd m of Inl e \<Rightarrow> Inl e | Inr x \<Rightarrow> snd (f x))"
  by (cases m) (auto simp: io_bind_def split: sum.splits prod.splits)

lemma fst_pay_settle: "fst (pay_settle w self a rc am tk p q) = [HttpPost (settle_url self) p q]"
  unfolding pay_settle_def settle_url_def
  by (simp add: fst_io_bind snd_io_bind split: sum.splits)

lemma pay_outcome_raise: "no_http tr \<Longrightarrow> pay_outcome w self rc am tk tr (Inl e)"
  by (simp add: pay_outcome_def)

lemma pay_outcome_failure: "no_http tr \<Longrightarrow> pay_outcome w self rc am tk tr (Inr (failure m a rc am tk))"
  by (simp add: pay_outcome_def)

lemma pay_outcome_prefix:
  assumes "pay_outcome w self rc am tk tr res" "no_http pre'"
  shows "pay_outcome w self rc am tk (pre' @ tr) res"
  using assms unfolding pay_outcome_def
  apply (elim disjE exE conjE)
    apply simp
   apply (rule disjI2, rule disjI1)
   apply (rule_tac x="pre' @ pre" in exI) apply auto[1]
  apply (rule disjI2, rule disjI2)
  apply (rule_tac x="pre' @ pre" in exI) apply auto[1]
  done

lemma pay_verify_outcome:
  "pay_outcome w self rc am tk (fst (pay_verify w self a rc am tk p q)) (snd (pay_verify w self a rc am tk p q))"
proof (cases "verify_valid w self p q")
  case True
  then have "pay_verify w self a rc am tk p q =
      ([HttpPost (verify_url self) p q, HttpPost (settle_url self) p q], snd (pay_settle w self a rc am tk p q))"
    unfolding pay_verify_def verify_valid_def verify_url_def [symmetric]
    by (auto simp: fst_pay_settle split: sum.splits)
  with True show ?thesis
    unfolding pay_outcome_def by (intro disjI2) (rule exI [of _ "[]"], rule exI [of _ a], auto)
next
  case False
  then have "fst (pay_verify w self a rc am tk p q) = [HttpPost (verify_url self) p q] \<and>
     (case snd (pay_verify w self a rc am tk p q) of Inl e \<Rightarrow> True | Inr r \<Rightarrow> is_failure r rc am tk)"
    unfolding pay_verify_def verify_valid_def verify_url_def [symmetric]
    by (auto simp: fst_io_bind snd_io_bind split: sum.splits)
  with False show ?thesis
    unfolding pay_outcome_def by (intro disjI2 disjI1) (auto intro!: exI [of _ "[]"])
qed


lemma pay_outcome_bind_pure:
  assumes "\<And>x. m = Inr x \<Longrightarrow> pay_outcome w self rc am tk (fst (f x)) (snd (f x))"
  shows "pay_outcome w self rc am tk (fst (io_bind (io_pure m) f)) (snd (io_bind (io_pure m) f))"
  using assms by (cases m) (simp_all add: pay_outcome_raise)

lemma pay_proceed_outcome:
  "pay_outcome w self rc am tk
     (fst (pay_proceed w self key a rc am tk ta wei tmo))
     (snd (pay_proceed w self key a rc am tk ta wei tmo))"
  unfolding pay_proceed_def Let_def
  by (intro pay_outcome_bind_pure pay_verify_outcome)

lemma check_approval_no_http:
  "no_http (fst (check_approval w key ta sp nw mn))"
  unfolding check_approval_def
  by (simp add: fst_io_bind snd_io_bind split: sum.splits)

lemma approve_token_no_http:
  "no_http (fst (approve_token w key ta sp nw amt))"
  unfolding approve_token_def Let_def
  by (simp add: fst_io_bind snd_io_bind split: sum.splits)

lemma pay_outcome_bind:
  assumes "no_http (fst m)"
    and "\<And>x. snd m = Inr x \<Longrightarrow> pay_outcome w self rc am tk (fst (f x)) (snd (f x))"
  shows "pay_outcome w self rc am tk (fst (io_bind m f)) (snd (io_bind m f))"
proof (cases "snd m")
  case (Inl e)
  then show ?thesis using assms(1) by (simp add: fst_io_bind snd_io_bind pay_outcome_raise)
next
  case (Inr x)
  then show ?thesis
    using pay_outcome_prefix [OF assms(2) [OF Inr] assms(1)]
    by (simp add: fst_io_bind snd_io_bind)
qed

lemma pay_approve_outcome:
  "pay_outcome w self rc am tk
     (fst (pay_approve w self key a rc am tk ta wei tmo auto_approve allow))
     (snd (pay_approve w self key a rc am tk ta wei tmo auto_approve allow))"
proof (cases auto_approve)
  case False
  then show ?thesis
    unfolding pay_approve_def
    by (simp add: fst_io_bind snd_io_bind pay_outcome_raise pay_outcome_failure split: sum.splits)
next
  case True
  define m where "m = io_bind (io_pure (dict_index w RELAYERS (network self))) (\<lambda>relayer.
                approve_token w key ta relayer (network self) (Some (max wei default_cap)))"
  have nh: "no_http (fst m)"
    unfolding m_def by (cases "dict_index w RELAYERS (network self)") (simp_all add: approve_token_no_http)
  show ?thesis
  proof (cases "snd m")
    case (Inl e)
    then have "pay_approve w self key a rc am tk ta wei tmo auto_approve allow =
      (fst m, Inr (failure (''Auto-approval failed: '' @ exn_str e @
                 ''. Please run: b402.setup('' @ [CHR 0x27] @ tk @ [CHR 0x27] @ '')'') a rc am tk))"
      unfolding pay_approve_def m_def [symmetric] using True by (cases m) auto
    then show ?thesis using nh by (simp add: pay_outcome_failure)
  next
    case (Inr h)
    then have "pay_approve w self key a rc am tk ta wei tmo auto_approve allow =
      io_bind m (\<lambda>h. pay_proceed w self key a rc am tk ta wei tmo)"
      unfolding pay_approve_def m_def [symmetric] using True by (cases m) auto
    then show ?thesis
      using pay_outcome_bind [OF nh, of w self rc am tk "\<lambda>h. pay_proceed w self key a rc am tk ta wei tmo"]
      by (simp add: pay_proceed_outcome)
  qed
qed

lemma pay_try_outcome:
  "pay_outcome w self rc am tk
     (fst (pay_try w self key am tk rc tmo auto_approve))
     (snd (pay_try w self key am tk rc tmo auto_approve))"
proof (cases "account_from_key w key")
  case (Inl e)
  then show ?thesis unfolding pay_try_def by (simp add: pay_outcome_raise)
next
  case a: (Inr a)
  show ?thesis
  proof (cases "dict_index w TOKENS (network self)")
    case (Inl e)
    then show ?thesis unfolding pay_try_def by (simp add: a pay_outcome_raise)
  next
    case t: (Inr tokens)
    show ?thesis
    proof (cases "map_of tokens tk = None \<or> map_of tokens tk = Some []")
      case True
      then show ?thesis unfolding pay_try_def by (auto simp: a t pay_outcome_failure)
    next
      case False
      then obtain ta where ta: "map_of tokens tk = Some ta" "ta \<noteq> []" by auto
      have eq: "pay_try w self key am tk rc tmo auto_approve =
          io_bind (io_pure (amount_to_wei (py_repr w) am)) (\<lambda>amount_wei.
            io_bind (io_pure (dict_index w RELAYERS (network self))) (\<lambda>relayer.
            io_bind (check_approval w key ta relayer (network self) amount_wei)
              (\<lambda>(is_approved, current_allowance).
            if \<not> is_approved then
              pay_approve w self key a rc am tk ta amount_wei tmo auto_approve current_allowance
            else
              pay_proceed w self key a rc am tk ta amount_wei tmo)))"
        unfolding pay_try_def by (simp add: a t ta)
      show ?thesis
        unfolding eq
      proof (intro pay_outcome_bind_pure pay_outcome_bind check_approval_no_http)
        fix wei relayer x
        show "pay_outcome w self rc am tk
          (fst (case x of (is_approved, current_allowance) \<Rightarrow>
            if \<not> is_approved then
              pay_approve w self key a rc am tk ta wei tmo auto_approve current_allowance
            else pay_proceed w self key a rc am tk ta wei tmo))
          (snd (case x of (is_approved, current_allowance) \<Rightarrow>
            if \<not> is_approved then
              pay_approve w self key a rc am tk ta wei tmo auto_approve current_allowance
            else pay_proceed w self key a rc am tk ta wei tmo))"
          by (cases x) (simp add: pay_approve_outcome pay_proceed_outcome)
      qed
    qed
  qed
qed


lemma pay_cases:
  assumes "pay w self am tk rc tmo auto_approve = (tr, res)"
  obtains
    (early) r where "res = Inr r" "no_http tr" "is_failure r rc am tk"
  | (rejected) r pre p q where "res = Inr r" "tr = pre @ [HttpPost (verify_url self) p q]"
      "no_http pre" "\<not> verify_valid w self p q" "is_failure r rc am tk"
  | (settled) pre a p q where "res = Inr (settle_outcome w self a rc am tk p q)"
      "tr = pre @ [HttpPost (verify_url self) p q, HttpPost (settle_url self) p q]"
      "no_http pre" "verify_valid w self p q"
proof (cases "environ_private_key w = None \<or> environ_private_key w = Some []")
  case True
  with assms have "tr = []" "res = Inr (failure ''PRIVATE_KEY environment variable not set'' [] rc am tk)"
    unfolding pay_def by (auto simp: io_pure_def)
  then show ?thesis
    using early [of "failure ''PRIVATE_KEY environment variable not set'' [] rc am tk"]
    by (simp add: no_http_def)
next
  case False
  then obtain key where key: "environ_private_key w = Some key" "key \<noteq> []" by auto
  define t where "t = pay_try w self key am tk rc tmo auto_approve"
  have o: "pay_outcome w self rc am tk (fst t) (snd t)"
    unfolding t_def by (rule pay_try_outcome)
  have "pay w self am tk rc tmo auto_approve =
     (fst t, case snd t of Inl e \<Rightarrow> Inr (failure (exn_str e) [] rc am tk) | Inr r \<Rightarrow> Inr r)"
    using key unfolding pay_def t_def by (simp split: prod.splits sum.splits)
  with assms have tr: "tr = fst t"
    and res: "res = (case snd t of Inl e \<Rightarrow> Inr (failure (exn_str e) [] rc am tk) | Inr r \<Rightarrow> Inr r)"
    by simp_all
  from o consider
    (A) "no_http (fst t)" "case snd t of Inl e \<Rightarrow> True | Inr r \<Rightarrow> is_failure r rc am tk"
  | (B) pre p q where "fst t = pre @ [HttpPost (verify_url self) p q]" "no_http pre"
      "\<not> verify_valid w self p q" "case snd t of Inl e \<Rightarrow> True | Inr r \<Rightarrow> is_failure r rc am tk"
  | (C) pre a p q where "fst t = pre @ [HttpPost (verify_url self) p q, HttpPost (settle_url self) p q]"
      "no_http pre" "verify_valid w self p q" "snd t = snd (pay_settle w self a rc am tk p q)"
    unfolding pay_outcome_def by blast
  then show ?thesis
  proof cases
    case A
    have "\<exists>r. res = Inr r \<and> is_failure r rc am tk"
      using A(2) unfolding res by (cases "snd t") simp_all
    then show ?thesis using A(1) early tr by blast
  next
    case B
    have "\<exists>r. res = Inr r \<and> is_failure r rc am tk"
      using B(4) unfolding res by (cases "snd t") simp_all
    then show ?thesis using B(1,2,3) rejected tr by blast
  next
    case C
    have "res = Inr (settle_outcome w self a rc am tk p q)"
      unfolding res settle_outcome_def C(4) by (simp split: sum.splits)
    then show ?thesis using C(1,2,3) settled tr by blast
  qed
qed


lemma dict_get_empty: "dict_get (JObj []) k dflt = Inr dflt"
  by (simp add: dict_get_def)

lemma dict_get_Inr_obj: "dict_get d k dflt = Inr v \<Longrightarrow> \<exists>kvs. d = JObj kvs"
  by (cases d) (simp_all add: dict_get_def)

lemma dict_get_obj: "\<exists>v. dict_get (JObj kvs) k dflt = Inr v"
  by (simp add: dict_get_def split: option.splits)

lemma settle_outcome_cases:
  fixes w self a rc am tk p q
  defines "so \<equiv> settle_outcome w self a rc am tk p q"
  obtains
    (transport) "case requests_post w (settle_url self) p q of Inl e \<Rightarrow> True | Inr resp \<Rightarrow> status_code resp \<noteq> 200"
      "is_failure so rc am tk"
  | (undecodable) resp where "requests_post w (settle_url self) p q = Inr resp" "status_code resp = 200"
      "case body_json resp of Inl e \<Rightarrow> True | Inr d \<Rightarrow> \<forall>kvs. d \<noteq> JObj kvs"
      "is_failure so rc am tk"
  | (answered) resp d s tx where "requests_post w (settle_url self) p q = Inr resp" "status_code resp = 200"
      "body_json resp = Inr d" "dict_get d ''success'' (JBool False) = Inr s"
      "dict_get d ''transaction'' JNull = Inr tx"
      "success so = s" "tx_hash so = tx" "if truthy s then error so = JNull else \<exists>m. error so = JStr m"
      "payer so = a" "recipient so = rc" "amount so = am" "token so = tk"
proof (cases "requests_post w (settle_url self) p q")
  case (Inl e)
  then have "so = failure (exn_str e) [] rc am tk"
    unfolding so_def settle_outcome_def pay_settle_def settle_url_def by (simp add: snd_io_bind)
  with Inl show ?thesis by (intro transport) simp_all
next
  case r: (Inr resp)
  show ?thesis
  proof (cases "status_code resp = 200")
    case False
    then have "is_failure so rc am tk"
      using r unfolding so_def settle_outcome_def pay_settle_def settle_url_def
      by (simp add: snd_io_bind split: sum.splits)
    with r False show ?thesis by (intro transport) simp_all
  next
    case ok: True
    show ?thesis
    proof (cases "body_json resp")
      case (Inl e)
      then have "so = failure (exn_str e) [] rc am tk"
        using r ok unfolding so_def settle_outcome_def pay_settle_def settle_url_def
        by (simp add: snd_io_bind)
      with r ok Inl show ?thesis by (intro undecodable [of resp]) simp_all
    next
      case d: (Inr d)
      show ?thesis
      proof (cases "\<exists>kvs. d = JObj kvs")
        case False
        then obtain e where e: "\<And>k x. dict_get d k x = Inl e"
          by (cases d) (auto simp: dict_get_def)
        have "so = failure (exn_str e) [] rc am tk"
          using r ok d unfolding so_def settle_outcome_def pay_settle_def settle_url_def
          by (simp add: snd_io_bind e)
        with r ok d False show ?thesis by (intro undecodable [of resp]) simp_all
      next
        case True
        then obtain kvs where kvs: "d = JObj kvs" by blast
        obtain s where s: "dict_get d ''success'' (JBool False) = Inr s"
          using dict_get_obj kvs by blast
        obtain tx where tx: "dict_get d ''transaction'' JNull = Inr tx"
          using dict_get_obj kvs by blast
        obtain er where er: "dict_get d ''errorReason'' (JStr ''Unknown error'') = Inr er"
          using dict_get_obj kvs by blast
        have er': "\<not> truthy d \<Longrightarrow> er = JStr ''Unknown error''"
          using er kvs by (simp add: dict_get_def)
        have so: "so = \<lparr>success = s, tx_hash = tx,
                     error = (if \<not> truthy s
                              then (if truthy d
                                    then JStr (py_str w er @ '' | Response: '' @ py_repr w d)
                                    else er)
                              else JNull),
                     payer = a, recipient = rc, amount = am, token = tk\<rparr>"
          using r ok d s tx er unfolding so_def settle_outcome_def pay_settle_def settle_url_def
          by (simp add: snd_io_bind)
        show ?thesis
          by (rule answered [OF r ok d s tx]) (auto simp: so er')
      qed
    qed
  qed
qed


subsection \<open>Evaluating the arithmetic and the example calls\<close>

lemma round_binary64_eval:
  assumes "n \<noteq> 0"
    and "bit_length (nat \<bar>n\<bar>) = la" and "bit_length (nat d) = ld"
    and "k = int la - int ld"
    and "lg = (if (if 0 \<le> k then d * 2 ^ nat k \<le> \<bar>n\<bar> else d \<le> \<bar>n\<bar> * 2 ^ nat (- k)) then k else k - 1)"
    and "e = max (lg - 52) (- 1074)"
    and "m = scaled_quotient \<bar>n\<bar> d e"
  shows "round_binary64 n d =
    (if 971 < e \<or> (e = 971 \<and> 2 ^ 53 \<le> m) then Infinity (n < 0)
     else Finite (if n < 0 then - m else m) e)"
proof -
  have "round_binary64 n d =
     (let a = \<bar>n\<bar>;
            k = int (bit_length (nat a)) - int (bit_length (nat d));
            lg = (if (if 0 \<le> k then d * 2 ^ nat k \<le> a else d \<le> a * 2 ^ nat (- k)) then k else k - 1);
            e = max (lg - 52) (- 1074);
            m = scaled_quotient a d e
        in if 971 < e \<or> (e = 971 \<and> 2 ^ 53 \<le> m) then Infinity (n < 0)
           else Finite (if n < 0 then - m else m) e)"
    using assms(1) by (simp only: round_binary64_def if_False)
  then show ?thesis
    by (simp only: Let_def assms(2,3) assms(4) [symmetric] assms(5) [symmetric]
        assms(6) [symmetric] assms(7) [symmetric])
qed

lemma bit_length_numeral [simp]:
  "bit_length (numeral k) = Suc (bit_length (numeral k div 2))"
  by (subst bit_length.simps) simp

lemma bit_length_small [simp]: "bit_length 0 = 0" "bit_length 1 = 1" "bit_length (Suc 0) = Suc 0"
  by (simp_all add: bit_length.simps)

lemmas parse_eval =
  py_float_def py_strip_def is_space_def split_sign_def ci_match_def pat_inf_def
  pat_infinity_def pat_nan_def parse_decimal_def round_decimal_def is_digit_def digit_val_def
  digit_table_def Let_def

lemmas round_eval = scaled_quotient_def round_half_even_def Let_def

lemma float_of_int_1e18: "float_of_int (10 ^ 18) = Inr (Finite 7812500000000000 7)"
proof -
  have "round_binary64 (10 ^ 18) 1 = Finite 7812500000000000 7"
    by (subst round_binary64_eval [where la = 60 and ld = 1 and k = 59 and lg = 59 and e = 7
          and m = 7812500000000000])
       (simp_all add: round_eval)
  then show ?thesis by (simp add: float_of_int_def)
qed

lemma py_float_001: "py_float rp ''0.01'' = Inr (Finite 5764607523034235 (- 59))"
proof -
  have "round_binary64 1 (10 ^ 2) = Finite 5764607523034235 (- 59)"
    by (subst round_binary64_eval [where la = 1 and ld = 7 and k = "- 6" and lg = "- 7"
          and e = "- 59" and m = 5764607523034235])
       (simp_all add: round_eval)
  then show ?thesis by (simp add: parse_eval)
qed

lemma float_mul_001:
  "float_mul (Finite 5764607523034235 (- 59)) (Finite 7812500000000000 7) = Finite 5000000000000000 1"
proof -
  have "round_binary64 (5764607523034235 * 7812500000000000) (2 ^ 52) = Finite 5000000000000000 1"
    by (subst round_binary64_eval [where la = 106 and ld = 53 and k = 53 and lg = 53 and e = 1
          and m = 5000000000000000])
       (simp_all add: round_eval)
  then show ?thesis by (simp add: round_dyadic_def)
qed

lemma amount_to_wei_001: "amount_to_wei rp ''0.01'' = Inr 10000000000000000"
  unfolding amount_to_wei_def py_float_001 float_of_int_1e18
  by (simp only: exn_bind_def sum.case float_mul_001 py_int_of_float.simps) simp

lemma py_float_007: "py_float rp ''0.07'' = Inr (Finite 5044031582654956 (- 56))"
proof -
  have "round_binary64 7 (10 ^ 2) = Finite 5044031582654956 (- 56)"
    by (subst round_binary64_eval [where la = 3 and ld = 7 and k = "- 4" and lg = "- 4"
          and e = "- 56" and m = 5044031582654956])
       (simp_all add: round_eval)
  then show ?thesis by (simp add: parse_eval)
qed

lemma float_mul_007:
  "float_mul (Finite 5044031582654956 (- 56)) (Finite 7812500000000000 7) = Finite 8750000000000001 3"
proof -
  have "round_binary64 (5044031582654956 * 7812500000000000) (2 ^ 49) = Finite 8750000000000001 3"
    by (subst round_binary64_eval [where la = 105 and ld = 50 and k = 55 and lg = 55 and e = 3
          and m = 8750000000000001])
       (simp_all add: round_eval)
  then show ?thesis by (simp add: round_dyadic_def)
qed

lemma amount_to_wei_007: "amount_to_wei rp ''0.07'' = Inr 70000000000000008"
  unfolding amount_to_wei_def py_float_007 float_of_int_1e18
  by (simp only: exn_bind_def sum.case float_mul_007 py_int_of_float.simps) simp

lemma example_lookups:
  "dict_index w TOKENS ''mainnet'' = Inr
         [(''USD1'', ''0x8d0d000ee44948fc98c9b98a4fa4921476f08b0d''),
          (''USDT'', ''0x55d398326f99059fF775485246999027B3197955''),
          (''USDC'', ''0x8AC76a51cc950d9822D68b83fE1Ad97B32Cd580d'')]"
  "dict_index w RELAYERS ''mainnet'' = Inr ''0xE1C2830d5DDd6B49E9c46EbE03a98Cb44CD8eA5a''"
  "dict_index w RPC_URLS ''mainnet'' = Inr ''https://bsc-dataseed1.binance.org''"
  by (simp_all add: dict_index_def TOKENS_def RELAYERS_def RPC_URLS_def)

lemma example_client_fields:
  "network example_client = ''mainnet''"
  "facilitator_url example_client = ''https://facilitator.b402.ai''"
  by (simp_all add: example_client_def B402_init_def rstrip_slash_def)

lemma check_approval_example:
  "call_allowance w ''https://bsc-dataseed1.binance.org''
       ''0x55d398326f99059fF775485246999027B3197955'' ''0xPayer''
       ''0xE1C2830d5DDd6B49E9c46EbE03a98Cb44CD8eA5a'' = r \<Longrightarrow>
   account_from_key w key = Inr ''0xPayer'' \<Longrightarrow> to_checksum_address w = Inr \<Longrightarrow>
   check_approval w key ''0x55d398326f99059fF775485246999027B3197955''
     ''0xE1C2830d5DDd6B49E9c46EbE03a98Cb44CD8eA5a'' ''mainnet'' mn =
     io_bind (io_call example_allowance_call r) (\<lambda>allowance. io_pure (Inr (mn \<le> int allowance, allowance)))"
  unfolding check_approval_def example_allowance_call_def
  by (simp add: example_lookups)

lemma example_like_example_world: "example_like example_world"
  by (simp add: example_like_def example_world_def)

lemma example_like_update [simp]:
  "example_like (w\<lparr>call_allowance := g\<rparr>) = example_like w"
  "example_like (w\<lparr>requests_post := f\<rparr>) = example_like w"
  by (simp_all add: example_like_def)

lemma process_payment_example_like:
  assumes "example_like w"
  shows "process_payment w example_requirements ''0x01'' = Inr example_payload"
proof -
  have f: "account_from_key w ''0x01'' = Inr ''0xPayer''" "to_checksum_address w = Inr"
    "time_time w = 1700000000" "token_hex w = ''00''"
    "\<And>d m. sign_typed_data w ''0x01'' d m = Inr ''5157''"
    using assms by (simp_all add: example_like_def)
  have b: "build_authorization w example_requirements ''0xPayer'' = Inr example_authorization"
    by (simp add: build_authorization_def f example_requirements_def example_authorization_def
        py_int_example)
  show ?thesis
    unfolding process_payment_def
    by (simp add: f b Let_def)
       (simp add: example_authorization_def py_str_int_examples example_payload_def
          example_requirements_def)
qed

lemma pay_proceed_example:
  assumes "example_like w"
  shows "pay_proceed w example_client ''0x01'' ''0xPayer'' ''0xABCD'' ''0.01'' ''USDT''
           ''0x55d398326f99059fF775485246999027B3197955'' 10000000000000000 3600 =
         pay_verify w example_client ''0xPayer'' ''0xABCD'' ''0.01'' ''USDT''
           example_payload example_requirements"
proof -
  have r: "\<lparr>req_scheme = ''exact'', req_asset = ''0x55d398326f99059fF775485246999027B3197955'',
            req_payTo = ''0xABCD'', req_maxAmountRequired = ''10000000000000000'',
            req_maxTimeoutSeconds = 3600, req_network = ''bsc'',
            req_relayerContract = ''0xE1C2830d5DDd6B49E9c46EbE03a98Cb44CD8eA5a''\<rparr> = example_requirements"
    by (simp add: example_requirements_def)
  show ?thesis
    unfolding pay_proceed_def
    by (simp add: py_str_int_examples example_client_fields example_lookups Let_def r
        process_payment_example_like [OF assms])
qed

lemma approve_token_example:
  assumes "example_like w"
  shows "approve_token w ''0x01'' ''0x55d398326f99059fF775485246999027B3197955''
           ''0xE1C2830d5DDd6B49E9c46EbE03a98Cb44CD8eA5a'' ''mainnet''
           (Some (max 10000000000000000 default_cap)) = (example_approve_calls, Inr ''0xa1'')"
proof -
  have f: "account_from_key w ''0x01'' = Inr ''0xPayer''" "to_checksum_address w = Inr"
    "\<And>rpc a. get_transaction_count w rpc a = Inr 7"
    "\<And>rpc k tok spender amt n. send_approve w rpc k tok spender amt n = Inr ''a1''"
    using assms by (simp_all add: example_like_def)
  show ?thesis
    unfolding approve_token_def
    by (simp add: f example_lookups default_cap_def example_approve_calls_def)
qed

lemma pay_example_like:
  assumes "example_like w"
  shows "pay w example_client ''0.01'' ''USDT'' ''0xABCD'' 3600 auto_approve =
    (case io_bind
       (io_call example_allowance_call
          (call_allowance w ''https://bsc-dataseed1.binance.org''
             ''0x55d398326f99059fF775485246999027B3197955'' ''0xPayer''
             ''0xE1C2830d5DDd6B49E9c46EbE03a98Cb44CD8eA5a''))
       (\<lambda>allowance.
          if \<not> 10000000000000000 \<le> int allowance then
            pay_approve w example_client ''0x01'' ''0xPayer'' ''0xABCD'' ''0.01'' ''USDT''
              ''0x55d398326f99059fF775485246999027B3197955'' 10000000000000000 3600
              auto_approve allowance
          else
            pay_verify w example_client ''0xPayer'' ''0xABCD'' ''0.01'' ''USDT''
              example_payload example_requirements) of
       (tr, Inl e) \<Rightarrow> (tr, Inr (failure (exn_str e) [] ''0xABCD'' ''0.01'' ''USDT''))
     | (tr, Inr r) \<Rightarrow> (tr, Inr r))"
proof -
  have f: "environ_private_key w = Some ''0x01''" "account_from_key w ''0x01'' = Inr ''0xPayer''"
    "to_checksum_address w = Inr"
    using assms by (simp_all add: example_like_def)
  have c: "\<And>mn. check_approval w ''0x01'' ''0x55d398326f99059fF775485246999027B3197955''
     ''0xE1C2830d5DDd6B49E9c46EbE03a98Cb44CD8eA5a'' ''mainnet'' mn =
     io_bind (io_call example_allowance_call (call_allowance w ''https://bsc-dataseed1.binance.org''
             ''0x55d398326f99059fF775485246999027B3197955'' ''0xPayer''
             ''0xE1C2830d5DDd6B49E9c46EbE03a98Cb44CD8eA5a''))
       (\<lambda>allowance. io_pure (Inr (mn \<le> int allowance, allowance)))"
    by (rule check_approval_example [OF refl f(2,3)])
  have t: "pay_try w example_client ''0x01'' ''0.01'' ''USDT'' ''0xABCD'' 3600 auto_approve =
     io_bind
       (io_call example_allowance_call
          (call_allowance w ''https://bsc-dataseed1.binance.org''
             ''0x55d398326f99059fF775485246999027B3197955'' ''0xPayer''
             ''0xE1C2830d5DDd6B49E9c46EbE03a98Cb44CD8eA5a''))
       (\<lambda>allowance.
          if \<not> 10000000000000000 \<le> int allowance then
            pay_approve w example_client ''0x01'' ''0xPayer'' ''0xABCD'' ''0.01'' ''USDT''
              ''0x55d398326f99059fF775485246999027B3197955'' 10000000000000000 3600
              auto_approve allowance
          else
            pay_verify w example_client ''0xPayer'' ''0xABCD'' ''0.01'' ''USDT''
              example_payload example_requirements)"
    unfolding pay_try_def
    apply (simp add: f example_client_fields example_lookups amount_to_wei_001 c
        pay_proceed_example [OF assms])
    apply (cases "call_allowance w ''https://bsc-dataseed1.binance.org''
             ''0x55d398326f99059fF775485246999027B3197955'' ''0xPayer''
             ''0xE1C2830d5DDd6B49E9c46EbE03a98Cb44CD8eA5a''")
     apply (simp_all add: io_bind_def io_call_def io_pure_def pay_proceed_example [OF assms])
    done
  show ?thesis
    unfolding pay_def by (simp add: f t)
qed

lemma pay_verify_valid:
  assumes "verify_valid w self p q"
  shows "pay_verify w self a rc am tk p q =
      ([HttpPost (verify_url self) p q, HttpPost (settle_url self) p q],
       snd (pay_settle w self a rc am tk p q))"
  using assms unfolding pay_verify_def verify_valid_def verify_url_def [symmetric]
  by (auto simp: fst_pay_settle split: sum.splits)

lemma example_urls:
  "verify_url example_client = ''https://facilitator.b402.ai/verify''"
  "settle_url example_client = ''https://facilitator.b402.ai/settle''"
  by (simp_all add: verify_url_def settle_url_def example_client_fields)

lemma pay_approve_example:
  assumes "example_like w"
  shows "pay_approve w example_client ''0x01'' ''0xPayer'' ''0xABCD'' ''0.01'' ''USDT''
              ''0x55d398326f99059fF775485246999027B3197955'' 10000000000000000 3600 True al =
         io_bind (example_approve_calls, Inr ''0xa1'') (\<lambda>h.
           pay_verify w example_client ''0xPayer'' ''0xABCD'' ''0.01'' ''USDT''
             example_payload example_requirements)"
  unfolding pay_approve_def
  by (simp add: example_client_fields example_lookups approve_token_example [OF assms]
      pay_proceed_example [OF assms])

lemma pay_example:
  "pay example_world example_client ''0.01'' ''USDT'' ''0xABCD'' 3600 True =
     (example_allowance_call # example_approve_calls @ [example_verify_post, example_settle_post],
      Inr example_success)"
proof -
  have v: "verify_valid example_world example_client example_payload example_requirements"
    by (simp add: verify_valid_def example_urls example_world_def example_response_def dict_get_def)
  have s: "snd (pay_settle example_world example_client ''0xPayer'' ''0xABCD'' ''0.01'' ''USDT''
             example_payload example_requirements) = Inr example_success"
    unfolding pay_settle_def
    by (simp add: example_client_fields example_world_def example_response_def dict_get_def
        example_success_def)
  show ?thesis
    unfolding pay_example_like [OF example_like_example_world] pay_approve_example [OF example_like_example_world]
      pay_verify_valid [OF v] s
    by (simp add: example_world_def io_bind_def io_call_def example_urls
        example_verify_post_def example_settle_post_def)
qed

lemma pay_no_transaction:
  "pay world_no_transaction example_client ''0.01'' ''USDT'' ''0xABCD'' 3600 True =
     (example_allowance_call # example_approve_calls @ [example_verify_post, example_settle_post],
      Inr (example_success\<lparr>tx_hash := JNull\<rparr>))"
proof -
  have l: "example_like world_no_transaction"
    by (simp add: world_no_transaction_def example_like_example_world)
  have v: "verify_valid world_no_transaction example_client example_payload example_requirements"
    by (simp add: verify_valid_def example_urls world_no_transaction_def example_response_def dict_get_def)
  have s: "snd (pay_settle world_no_transaction example_client ''0xPayer'' ''0xABCD'' ''0.01'' ''USDT''
             example_payload example_requirements) = Inr (example_success\<lparr>tx_hash := JNull\<rparr>)"
    unfolding pay_settle_def
    by (simp add: example_client_fields world_no_transaction_def example_response_def dict_get_def
        example_success_def)
  show ?thesis
    unfolding pay_example_like [OF l] pay_approve_example [OF l] pay_verify_valid [OF v] s
    by (simp add: world_no_transaction_def example_world_def io_bind_def io_call_def example_urls
        example_verify_post_def example_settle_post_def)
qed

lemma pay_settle_down:
  "pay world_settle_down example_client ''0.01'' ''USDT'' ''0xABCD'' 3600 True =
     (example_allowance_call # example_approve_calls @ [example_verify_post, example_settle_post],
      Inr (failure ''connection refused'' [] ''0xABCD'' ''0.01'' ''USDT''))"
proof -
  have l: "example_like world_settle_down"
    by (simp add: world_settle_down_def example_like_example_world)
  have v: "verify_valid world_settle_down example_client example_payload example_requirements"
    by (simp add: verify_valid_def example_urls world_settle_down_def example_response_def dict_get_def)
  have s: "snd (pay_settle world_settle_down example_client ''0xPayer'' ''0xABCD'' ''0.01'' ''USDT''
             example_payload example_requirements) = Inl (Exn ''ConnectionError'' ''connection refused'')"
    unfolding pay_settle_def
    by (simp add: example_client_fields world_settle_down_def)
  show ?thesis
    unfolding pay_example_like [OF l] pay_approve_example [OF l] pay_verify_valid [OF v] s
    by (simp add: world_settle_down_def example_world_def io_bind_def io_call_def example_urls
        example_verify_post_def example_settle_post_def)
qed

lemma pay_rpc_down:
  "pay world_rpc_down example_client ''0.01'' ''USDT'' ''0xABCD'' 3600 True =
     ([example_allowance_call], Inr (failure ''connection refused'' [] ''0xABCD'' ''0.01'' ''USDT''))"
proof -
  have l: "example_like world_rpc_down"
    by (simp add: world_rpc_down_def example_like_example_world)
  show ?thesis
    unfolding pay_example_like [OF l]
    by (simp add: world_rpc_down_def)
qed

lemma py_true_div_examples:
  "py_true_div 0 1000000000000000000 = Inr (Finite 0 0)"
  "py_true_div 10000000000000000 1000000000000000000 = Inr (Finite 5764607523034235 (- 59))"
proof -
  show "py_true_div 0 1000000000000000000 = Inr (Finite 0 0)"
    by (simp add: py_true_div_def round_binary64_def)
  have "round_binary64 10000000000000000 1000000000000000000 = Finite 5764607523034235 (- 59)"
    by (subst round_binary64_eval [where la = 54 and ld = 60 and k = "- 6" and lg = "- 7"
          and e = "- 59" and m = 5764607523034235])
       (simp_all add: round_eval)
  then show "py_true_div 10000000000000000 1000000000000000000 = Inr (Finite 5764607523034235 (- 59))"
    by (simp add: py_true_div_def)
qed

lemma replicate_numeral_Cons: "replicate (numeral k) x = x # replicate (pred_numeral k) x"
  by (simp add: numeral_eq_Suc)

lemma format_4f_examples:
  "format_4f (Finite 0 0) = ''0.0000''"
  "format_4f (Finite 5764607523034235 (- 59)) = ''0.0100''"
  by (simp_all add: round_half_even_def Let_def digits_of_nat.simps digit_char_def pad4_def
      replicate_numeral_Cons)

lemma pay_example_no_auto:
  "pay example_world example_client ''0.01'' ''USDT'' ''0xABCD'' 3600 False =
     ([example_allowance_call],
      Inr (failure example_insufficient ''0xPayer'' ''0xABCD'' ''0.01'' ''USDT''))"
proof -
  have a: "pay_approve example_world example_client ''0x01'' ''0xPayer'' ''0xABCD'' ''0.01'' ''USDT''
              ''0x55d398326f99059fF775485246999027B3197955'' 10000000000000000 3600 False 0 =
       ([], Inr (failure example_insufficient ''0xPayer'' ''0xABCD'' ''0.01'' ''USDT''))"
    unfolding pay_approve_def
    by (simp add: py_true_div_examples example_insufficient_def)
       (simp add: io_pure_def round_half_even_def Let_def digits_of_nat.simps digit_char_def pad4_def
          replicate_numeral_Cons)
  show ?thesis
    unfolding pay_example_like [OF example_like_example_world]
    by (simp add: example_world_def a [unfolded example_world_def])
qed

lemma url_distinct [simp]: "verify_url self \<noteq> settle_url self" "settle_url self \<noteq> verify_url self"
  by (simp_all add: verify_url_def settle_url_def)

lemma no_http_post_notin: "no_http tr \<Longrightarrow> HttpPost u p q \<notin> set tr"
  by (auto simp: no_http_def list_all_iff)

subsection \<open>Verify before settle\<close>

text \<open>
  Claim C6.  In every execution of \<open>pay\<close>, either no settle request is posted at all, or the
  recorded calls end with the verify request immediately followed by the settle request for
  the same payload and requirements, no other request to the facilitator precedes them,
  and that verify request returned Valid: status 200 and a body whose \<open>isValid\<close> is true
  (in Python's sense of truth, which for the boolean of the facilitator's schema is
  \<open>true\<close> itself).  So settle never follows an invalid or failed verify.
\<close>

theorem settle_only_after_valid_verify:
  assumes "pay w self amount' token' recipient' timeout_seconds auto_approve = (tr, res)"
  shows "(\<forall>p q. HttpPost (settle_url self) p q \<notin> set tr) \<or>
         (\<exists>pre p q. tr = pre @ [HttpPost (verify_url self) p q, HttpPost (settle_url self) p q] \<and>
            no_http pre \<and> verify_valid w self p q)"
  using assms
proof (cases rule: pay_cases)
  case (early r)
  then show ?thesis by (simp add: no_http_post_notin)
next
  case (rejected r pre p q)
  then show ?thesis by (simp add: no_http_post_notin)
next
  case (settled pre a p q)
  then show ?thesis by blast
qed

theorem settle_only_after_valid_verify_witness:
  "pay example_world example_client ''0.01'' ''USDT'' ''0xABCD'' 3600 True =
     (example_allowance_call # example_approve_calls @ [example_verify_post, example_settle_post],
      Inr example_success) \<and>
   (\<exists>pre p q.
      example_allowance_call # example_approve_calls @ [example_verify_post, example_settle_post] =
        pre @ [HttpPost (verify_url example_client) p q, HttpPost (settle_url example_client) p q] \<and>
      no_http pre \<and> verify_valid example_world example_client p q)"
proof -
  have "HttpPost (settle_url example_client) example_payload example_requirements
          \<in> set (example_allowance_call # example_approve_calls @ [example_verify_post, example_settle_post])"
    by (simp add: example_settle_post_def example_urls)
  then show ?thesis
    using settle_only_after_valid_verify [OF pay_example] pay_example by blast
qed

subsection \<open>The shape of the result\<close>

text \<open>
  Claim C2, as amended.  \<open>pay\<close> always returns a result.  If its \<open>success\<close> is true, its
  \<open>error\<close> is \<open>None\<close> and its \<open>tx_hash\<close> is what the settle response holds under
  \<open>transaction\<close> (\<open>None\<close> when the facilitator sent none); if \<open>success\<close> is false, \<open>error\<close> is
  a string.
\<close>

theorem payment_result_shape:
  assumes "pay w self amount' token' recipient' timeout_seconds auto_approve = (tr, res)"
  shows "\<exists>r. res = Inr r \<and>
     (if truthy (success r)
      then error r = JNull \<and>
           (\<exists>p q resp d. HttpPost (settle_url self) p q \<in> set tr \<and>
              requests_post w (settle_url self) p q = Inr resp \<and> body_json resp = Inr d \<and>
              dict_get d ''transaction'' JNull = Inr (tx_hash r))
      else \<exists>m. error r = JStr m)"
  using assms
proof (cases rule: pay_cases)
  case (early r)
  then show ?thesis by (auto simp: is_failure_def)
next
  case (rejected r pre p q)
  then show ?thesis by (auto simp: is_failure_def)
next
  case (settled pre a p q)
  have mem: "HttpPost (settle_url self) p q \<in> set tr"
    using settled(2) by simp
  show ?thesis
  proof (cases rule: settle_outcome_cases [of w self p q a recipient' amount' token'])
    case transport
    then show ?thesis using settled(1) by (auto simp: is_failure_def)
  next
    case (undecodable resp)
    then show ?thesis using settled(1) by (auto simp: is_failure_def)
  next
    case (answered resp d s tx)
    then show ?thesis using settled(1) mem by (auto split: if_splits)
  qed
qed

theorem payment_result_shape_witness:
  "pay example_world example_client ''0.01'' ''USDT'' ''0xABCD'' 3600 True =
     (example_allowance_call # example_approve_calls @ [example_verify_post, example_settle_post],
      Inr example_success) \<and>
   truthy (success example_success) \<and> error example_success = JNull \<and>
   (\<exists>p q resp d.
      requests_post example_world (settle_url example_client) p q = Inr resp \<and>
      body_json resp = Inr d \<and> dict_get d ''transaction'' JNull = Inr (tx_hash example_success)) \<and>
   pay example_world example_client ''0.01'' ''USDT'' ''0xABCD'' 3600 False =
     ([example_allowance_call],
      Inr (failure example_insufficient ''0xPayer'' ''0xABCD'' ''0.01'' ''USDT'')) \<and>
   \<not> truthy (success (failure example_insufficient ''0xPayer'' ''0xABCD'' ''0.01'' ''USDT'')) \<and>
   (\<exists>m. error (failure example_insufficient ''0xPayer'' ''0xABCD'' ''0.01'' ''USDT'') = JStr m)"
proof -
  have t: "truthy (success example_success)"
    by (simp add: example_success_def)
  have f: "\<not> truthy (success (failure example_insufficient ''0xPayer'' ''0xABCD'' ''0.01'' ''USDT''))"
    by (simp add: failure_def)
  show ?thesis
    using payment_result_shape [OF pay_example] payment_result_shape [OF pay_example_no_auto]
      pay_example pay_example_no_auto t f
    by auto
qed

text \<open>
  The claim as worded fails where the facilitator answers settle with \<open>success: true\<close> and
  no \<open>transaction\<close>: the result has \<open>success=True\<close> and \<open>tx_hash=None\<close>.
\<close>

theorem success_without_tx_hash_counterexample:
  "pay world_no_transaction example_client ''0.01'' ''USDT'' ''0xABCD'' 3600 True =
     (example_allowance_call # example_approve_calls @ [example_verify_post, example_settle_post],
      Inr (example_success\<lparr>tx_hash := JNull\<rparr>)) \<and>
   success (example_success\<lparr>tx_hash := JNull\<rparr>) = JBool True \<and>
   tx_hash (example_success\<lparr>tx_hash := JNull\<rparr>) = JNull"
  by (simp add: pay_no_transaction) (simp add: example_success_def)

subsection \<open>No exception leaves \<open>pay\<close>\<close>

lemma dict_index_Inr: "map_of d k = Some v \<Longrightarrow> dict_index w d k = Inr v"
  by (simp add: dict_index_def)

lemma case_io_pure [simp]: "(case io_pure r of (tr, x) \<Rightarrow> f tr x) = f [] r"
  by (simp add: io_pure_def)

lemma io_pure_eq [simp]: "io_pure r = (tr, x) \<longleftrightarrow> tr = [] \<and> x = r"
  by (auto simp: io_pure_def)

lemma amount_to_wei_abc:
  "amount_to_wei rp ''abc'' = Inl (Exn ''ValueError'' (''could not convert string to float: '' @ rp (JStr ''abc'')))"
  by (simp add: amount_to_wei_def parse_eval)

lemma example_world_fields:
  "environ_private_key example_world = Some ''0x01''"
  "account_from_key example_world k = Inr ''0xPayer''"
  "py_repr example_world = example_repr"
  by (simp_all add: example_world_def)

lemma example_tokens:
  "map_of TOKENS (network example_client) = Some
         [(''USD1'', ''0x8d0d000ee44948fc98c9b98a4fa4921476f08b0d''),
          (''USDT'', ''0x55d398326f99059fF775485246999027B3197955''),
          (''USDC'', ''0x8AC76a51cc950d9822D68b83fE1Ad97B32Cd580d'')]"
  by (simp add: example_client_fields TOKENS_def)

lemma pay_settle_error:
  "pay world_settle_error example_client ''0.01'' ''USDT'' ''0xABCD'' 3600 True =
     (example_allowance_call # example_approve_calls @ [example_verify_post, example_settle_post],
      Inr (failure ''Settle request failed: HTTP 500 - Internal Server Error'' ''0xPayer''
             ''0xABCD'' ''0.01'' ''USDT''))"
proof -
  have l: "example_like world_settle_error"
    by (simp add: world_settle_error_def example_like_example_world)
  have v: "verify_valid world_settle_error example_client example_payload example_requirements"
    by (simp add: verify_valid_def example_urls world_settle_error_def example_response_def dict_get_def)
  have s: "snd (pay_settle world_settle_error example_client ''0xPayer'' ''0xABCD'' ''0.01'' ''USDT''
             example_payload example_requirements) =
           Inr (failure ''Settle request failed: HTTP 500 - Internal Server Error'' ''0xPayer''
                  ''0xABCD'' ''0.01'' ''USDT'')"
    unfolding pay_settle_def
    by (simp add: example_client_fields world_settle_error_def py_str_int_def digits_of_nat.simps
        digit_char_def int_max_str_digits_def)
  show ?thesis
    unfolding pay_example_like [OF l] pay_approve_example [OF l] pay_verify_valid [OF v] s
    by (simp add: world_settle_error_def example_world_def io_bind_def io_call_def example_urls
        example_verify_post_def example_settle_post_def)
qed

lemma pay_settle_refused:
  "pay world_settle_refused example_client ''0.01'' ''USDT'' ''0xABCD'' 3600 True =
     (example_allowance_call # example_approve_calls @ [example_verify_post, example_settle_post],
      Inr \<lparr>success = JBool False, tx_hash = JNull,
           error = JStr ''nonce used | Response: {...}'', payer = ''0xPayer'',
           recipient = ''0xABCD'', amount = ''0.01'', token = ''USDT''\<rparr>)"
proof -
  have l: "example_like world_settle_refused"
    by (simp add: world_settle_refused_def example_like_example_world)
  have v: "verify_valid world_settle_refused example_client example_payload example_requirements"
    by (simp add: verify_valid_def example_urls world_settle_refused_def example_response_def dict_get_def)
  have s: "snd (pay_settle world_settle_refused example_client ''0xPayer'' ''0xABCD'' ''0.01'' ''USDT''
             example_payload example_requirements) =
           Inr \<lparr>success = JBool False, tx_hash = JNull,
                error = JStr ''nonce used | Response: {...}'', payer = ''0xPayer'',
                recipient = ''0xABCD'', amount = ''0.01'', token = ''USDT''\<rparr>"
    unfolding pay_settle_def
    by (simp add: example_client_fields world_settle_refused_def example_world_def
        example_response_def dict_get_def py_str_def example_repr_def)
  show ?thesis
    unfolding pay_example_like [OF l] pay_approve_example [OF l] pay_verify_valid [OF v] s
    by (simp add: world_settle_refused_def example_world_def io_bind_def io_call_def example_urls
        example_verify_post_def example_settle_post_def)
qed

lemma settle_post_unique:
  assumes "tr = pre @ [HttpPost (verify_url self) p q, HttpPost (settle_url self) p q]"
    and "no_http pre" and "HttpPost (settle_url self) p' q' \<in> set tr"
  shows "p' = p \<and> q' = q"
  using assms by (auto simp: no_http_post_notin)

lemma settle_outcome_by_response:
  "case requests_post w (settle_url self) p q of
     Inl e \<Rightarrow> is_failure (settle_outcome w self a rc am tk p q) rc am tk
   | Inr resp \<Rightarrow>
       if status_code resp \<noteq> 200 then is_failure (settle_outcome w self a rc am tk p q) rc am tk
       else (case body_json resp of
               Inl e \<Rightarrow> is_failure (settle_outcome w self a rc am tk p q) rc am tk
             | Inr d \<Rightarrow>
                 (case dict_get d ''success'' (JBool False) of
                    Inl e \<Rightarrow> is_failure (settle_outcome w self a rc am tk p q) rc am tk
                  | Inr s \<Rightarrow> success (settle_outcome w self a rc am tk p q) = s \<and>
                      (if truthy s then error (settle_outcome w self a rc am tk p q) = JNull
                       else \<exists>m. error (settle_outcome w self a rc am tk p q) = JStr m)))"
proof (cases rule: settle_outcome_cases [of w self p q a rc am tk])
  case transport
  then show ?thesis by (simp split: sum.splits)
next
  case (undecodable resp)
  then show ?thesis by (auto split: sum.splits dest: dict_get_Inr_obj)
next
  case (answered resp d s tx)
  then show ?thesis by simp
qed

lemma settle_outcome_success:
  assumes "truthy (success (settle_outcome w self a rc am tk p q))"
  shows "\<exists>resp d. requests_post w (settle_url self) p q = Inr resp \<and> status_code resp = 200 \<and>
           body_json resp = Inr d \<and>
           dict_get d ''success'' (JBool False) = Inr (success (settle_outcome w self a rc am tk p q))"
proof (cases rule: settle_outcome_cases [of w self p q a rc am tk])
  case transport
  then show ?thesis using assms by (simp add: is_failure_def)
next
  case (undecodable resp)
  then show ?thesis using assms by (simp add: is_failure_def)
next
  case (answered resp d s tx)
  then show ?thesis by simp
qed

text \<open>
  Claim C9.  For every input and every behaviour of the collaborators, \<open>pay\<close> returns a
  \<open>PaymentResult\<close>; no exception leaves it.  The result either reports success or carries
  an error message, and whenever no settle request was posted it is the failure shape
  (\<open>success=False\<close>, an error message).  Once the settle request was posted, the result
  follows the facilitator's answer: an exception raised by the request, a status other
  than 200, a body that does not decode, and a body that is not a dictionary, all give the
  failure shape; a dictionary gives its \<open>success\<close> member (\<open>False\<close> when absent) as
  \<open>success\<close>, with no error when that is true and with an error message when it is not.
  So \<open>success\<close> is true only after a settle request that returned status 200 with a
  dictionary whose \<open>success\<close> is true.  In particular: with the credential unset the
  message names \<open>PRIVATE_KEY\<close>; a key the account library rejects, and a malformed amount,
  give the text of the exception raised; a token that the active network does not list
  gives \<open>Token ... not supported on ...\<close>.  The message is the text the failing step
  provides.
\<close>

theorem pay_returns_failure_results:
  assumes "pay w self amount' token' recipient' timeout_seconds auto_approve = (tr, res)"
  shows "\<exists>r. res = Inr r \<and>
     (truthy (success r) \<or> (\<exists>m. error r = JStr m)) \<and>
     ((\<forall>p q. HttpPost (settle_url self) p q \<notin> set tr) \<longrightarrow> is_failure r recipient' amount' token') \<and>
     (\<forall>p q. HttpPost (settle_url self) p q \<in> set tr \<longrightarrow>
        (case requests_post w (settle_url self) p q of
           Inl e \<Rightarrow> is_failure r recipient' amount' token'
         | Inr resp \<Rightarrow>
             if status_code resp \<noteq> 200 then is_failure r recipient' amount' token'
             else (case body_json resp of
                     Inl e \<Rightarrow> is_failure r recipient' amount' token'
                   | Inr d \<Rightarrow>
                       (case dict_get d ''success'' (JBool False) of
                          Inl e \<Rightarrow> is_failure r recipient' amount' token'
                        | Inr s \<Rightarrow> success r = s \<and>
                            (if truthy s then error r = JNull else \<exists>m. error r = JStr m))))) \<and>
     (truthy (success r) \<longrightarrow>
        (\<exists>p q resp d. HttpPost (settle_url self) p q \<in> set tr \<and>
           requests_post w (settle_url self) p q = Inr resp \<and> status_code resp = 200 \<and>
           body_json resp = Inr d \<and> dict_get d ''success'' (JBool False) = Inr (success r))) \<and>
     (environ_private_key w = None \<or> environ_private_key w = Some [] \<longrightarrow>
        tr = [] \<and> r = failure ''PRIVATE_KEY environment variable not set'' [] recipient' amount' token') \<and>
     (\<forall>k e. environ_private_key w = Some k \<and> k \<noteq> [] \<and> account_from_key w k = Inl e \<longrightarrow>
        tr = [] \<and> r = failure (exn_str e) [] recipient' amount' token') \<and>
     (\<forall>k a tokens. environ_private_key w = Some k \<and> k \<noteq> [] \<and> account_from_key w k = Inr a \<and>
        map_of TOKENS (network self) = Some tokens \<and> map_of tokens token' = None \<longrightarrow>
        tr = [] \<and>
        r = failure (''Token '' @ token' @ '' not supported on '' @ network self) a recipient' amount' token') \<and>
     (\<forall>k a tokens ta e. environ_private_key w = Some k \<and> k \<noteq> [] \<and> account_from_key w k = Inr a \<and>
        map_of TOKENS (network self) = Some tokens \<and> map_of tokens token' = Some ta \<and> ta \<noteq> [] \<and>
        amount_to_wei (py_repr w) amount' = Inl e \<longrightarrow>
        tr = [] \<and> r = failure (exn_str e) [] recipient' amount' token')"
proof -
  have shape: "\<exists>r. res = Inr r \<and> (truthy (success r) \<or> (\<exists>m. error r = JStr m)) \<and>
     ((\<forall>p q. HttpPost (settle_url self) p q \<notin> set tr) \<longrightarrow> is_failure r recipient' amount' token') \<and>
     (\<forall>p q. HttpPost (settle_url self) p q \<in> set tr \<longrightarrow>
        (case requests_post w (settle_url self) p q of
           Inl e \<Rightarrow> is_failure r recipient' amount' token'
         | Inr resp \<Rightarrow>
             if status_code resp \<noteq> 200 then is_failure r recipient' amount' token'
             else (case body_json resp of
                     Inl e \<Rightarrow> is_failure r recipient' amount' token'
                   | Inr d \<Rightarrow>
                       (case dict_get d ''success'' (JBool False) of
                          Inl e \<Rightarrow> is_failure r recipient' amount' token'
                        | Inr s \<Rightarrow> success r = s \<and>
                            (if truthy s then error r = JNull else \<exists>m. error r = JStr m))))) \<and>
     (truthy (success r) \<longrightarrow>
        (\<exists>p q resp d. HttpPost (settle_url self) p q \<in> set tr \<and>
           requests_post w (settle_url self) p q = Inr resp \<and> status_code resp = 200 \<and>
           body_json resp = Inr d \<and> dict_get d ''success'' (JBool False) = Inr (success r)))"
    using assms
  proof (cases rule: pay_cases)
    case (early r)
    then show ?thesis by (auto simp: is_failure_def no_http_post_notin)
  next
    case (rejected r pre p q)
    then show ?thesis by (auto simp: is_failure_def no_http_post_notin)
  next
    case (settled pre a p q)
    let ?so = "settle_outcome w self a recipient' amount' token' p q"
    have u: "\<And>p' q'. HttpPost (settle_url self) p' q' \<in> set tr \<Longrightarrow> p' = p \<and> q' = q"
      by (rule settle_post_unique [OF settled(2,3)])
    have m: "HttpPost (settle_url self) p q \<in> set tr"
      unfolding settled(2) by simp
    have 1: "truthy (success ?so) \<or> (\<exists>m. error ?so = JStr m)"
      by (cases rule: settle_outcome_cases [of w self p q a recipient' amount' token'])
         (auto simp: is_failure_def split: if_splits)
    note 3 = settle_outcome_by_response [where w = w and self = self and p = p and q = q and a = a
        and rc = recipient' and am = amount' and tk = token']
    have 4: "truthy (success ?so) \<longrightarrow>
        (\<exists>p q resp d. HttpPost (settle_url self) p q \<in> set tr \<and>
           requests_post w (settle_url self) p q = Inr resp \<and> status_code resp = 200 \<and>
           body_json resp = Inr d \<and> dict_get d ''success'' (JBool False) = Inr (success ?so))"
      using settle_outcome_success [of w self a recipient' amount' token' p q] m
      by blast
    have 2: "\<not> (\<forall>p q. HttpPost (settle_url self) p q \<notin> set tr)"
      using m by blast
    have f3: "\<forall>p' q'. HttpPost (settle_url self) p' q' \<in> set tr \<longrightarrow>
        (case requests_post w (settle_url self) p' q' of
           Inl e \<Rightarrow> is_failure ?so recipient' amount' token'
         | Inr resp \<Rightarrow>
             if status_code resp \<noteq> 200 then is_failure ?so recipient' amount' token'
             else (case body_json resp of
                     Inl e \<Rightarrow> is_failure ?so recipient' amount' token'
                   | Inr d \<Rightarrow>
                       (case dict_get d ''success'' (JBool False) of
                          Inl e \<Rightarrow> is_failure ?so recipient' amount' token'
                        | Inr s \<Rightarrow> success ?so = s \<and>
                            (if truthy s then error ?so = JNull else \<exists>m. error ?so = JStr m))))"
    proof (intro allI impI)
      fix p' q' assume "HttpPost (settle_url self) p' q' \<in> set tr"
      then have "p' = p \<and> q' = q" by (rule u)
      then show "case requests_post w (settle_url self) p' q' of
           Inl e \<Rightarrow> is_failure ?so recipient' amount' token'
         | Inr resp \<Rightarrow>
             if status_code resp \<noteq> 200 then is_failure ?so recipient' amount' token'
             else (case body_json resp of
                     Inl e \<Rightarrow> is_failure ?so recipient' amount' token'
                   | Inr d \<Rightarrow>
                       (case dict_get d ''success'' (JBool False) of
                          Inl e \<Rightarrow> is_failure ?so recipient' amount' token'
                        | Inr s \<Rightarrow> success ?so = s \<and>
                            (if truthy s then error ?so = JNull else \<exists>m. error ?so = JStr m)))"
        using 3 by simp
    qed
    show ?thesis
      unfolding settled(1)
      by (intro exI [of _ ?so] conjI refl 1 f3 4) (simp add: 2)
  qed
  then obtain r where r: "res = Inr r" by blast
  have c1: "environ_private_key w = None \<or> environ_private_key w = Some [] \<Longrightarrow>
        tr = [] \<and> r = failure ''PRIVATE_KEY environment variable not set'' [] recipient' amount' token'"
    using assms r unfolding pay_def by auto
  have c2: "\<And>k e. environ_private_key w = Some k \<Longrightarrow> k \<noteq> [] \<Longrightarrow> account_from_key w k = Inl e \<Longrightarrow>
        tr = [] \<and> r = failure (exn_str e) [] recipient' amount' token'"
    using assms r unfolding pay_def pay_try_def by auto
  have c3: "\<And>k a tokens. environ_private_key w = Some k \<Longrightarrow> k \<noteq> [] \<Longrightarrow> account_from_key w k = Inr a \<Longrightarrow>
        map_of TOKENS (network self) = Some tokens \<Longrightarrow> map_of tokens token' = None \<Longrightarrow>
        tr = [] \<and>
        r = failure (''Token '' @ token' @ '' not supported on '' @ network self) a recipient' amount' token'"
    using assms r unfolding pay_def pay_try_def by (auto simp: dict_index_Inr)
  have c4: "\<And>k a tokens ta e. environ_private_key w = Some k \<Longrightarrow> k \<noteq> [] \<Longrightarrow> account_from_key w k = Inr a \<Longrightarrow>
        map_of TOKENS (network self) = Some tokens \<Longrightarrow> map_of tokens token' = Some ta \<Longrightarrow> ta \<noteq> [] \<Longrightarrow>
        amount_to_wei (py_repr w) amount' = Inl e \<Longrightarrow>
        tr = [] \<and> r = failure (exn_str e) [] recipient' amount' token'"
    using assms r unfolding pay_def pay_try_def by (auto simp: dict_index_Inr)
  show ?thesis
    using shape r c1 c2 c3 c4 by (intro exI [of _ r]) blast
qed

theorem pay_returns_failure_results_witness:
  "snd (pay world_no_key example_client ''0.01'' ''USDT'' ''0xABCD'' 3600 True) =
     Inr (failure ''PRIVATE_KEY environment variable not set'' [] ''0xABCD'' ''0.01'' ''USDT'') \<and>
   snd (pay world_bad_key example_client ''0.01'' ''USDT'' ''0xABCD'' 3600 True) =
     Inr (failure ''bad key'' [] ''0xABCD'' ''0.01'' ''USDT'') \<and>
   snd (pay example_world example_client ''0.01'' ''DAI'' ''0xABCD'' 3600 True) =
     Inr (failure ''Token DAI not supported on mainnet'' ''0xPayer'' ''0xABCD'' ''0.01'' ''DAI'') \<and>
   snd (pay example_world example_client ''abc'' ''USDT'' ''0xABCD'' 3600 True) =
     Inr (failure (''could not convert string to float: '' @ [CHR 0x27] @ ''abc'' @ [CHR 0x27]) []
            ''0xABCD'' ''abc'' ''USDT'') \<and>
   snd (pay world_rpc_down example_client ''0.01'' ''USDT'' ''0xABCD'' 3600 True) =
     Inr (failure ''connection refused'' [] ''0xABCD'' ''0.01'' ''USDT'') \<and>
   is_failure (failure ''connection refused'' [] ''0xABCD'' ''0.01'' ''USDT'') ''0xABCD'' ''0.01'' ''USDT'' \<and>
   snd (pay world_settle_error example_client ''0.01'' ''USDT'' ''0xABCD'' 3600 True) =
     Inr (failure ''Settle request failed: HTTP 500 - Internal Server Error'' ''0xPayer''
            ''0xABCD'' ''0.01'' ''USDT'') \<and>
   is_failure (failure ''Settle request failed: HTTP 500 - Internal Server Error'' ''0xPayer''
            ''0xABCD'' ''0.01'' ''USDT'') ''0xABCD'' ''0.01'' ''USDT'' \<and>
   snd (pay world_settle_refused example_client ''0.01'' ''USDT'' ''0xABCD'' 3600 True) =
     Inr \<lparr>success = JBool False, tx_hash = JNull,
          error = JStr ''nonce used | Response: {...}'', payer = ''0xPayer'',
          recipient = ''0xABCD'', amount = ''0.01'', token = ''USDT''\<rparr> \<and>
   success \<lparr>success = JBool False, tx_hash = JNull,
          error = JStr ''nonce used | Response: {...}'', payer = ''0xPayer'',
          recipient = ''0xABCD'', amount = ''0.01'', token = ''USDT''\<rparr> = JBool False \<and>
   (\<exists>m. error \<lparr>success = JBool False, tx_hash = JNull,
          error = JStr ''nonce used | Response: {...}'', payer = ''0xPayer'',
          recipient = ''0xABCD'', amount = ''0.01'', token = ''USDT''\<rparr> = JStr m)"
proof -
  let ?T = "example_allowance_call # example_approve_calls @ [example_verify_post, example_settle_post]"
  let ?F = "failure ''Settle request failed: HTTP 500 - Internal Server Error'' ''0xPayer''
            ''0xABCD'' ''0.01'' ''USDT''"
  let ?R = "\<lparr>success = JBool False, tx_hash = JNull,
          error = JStr ''nonce used | Response: {...}'', payer = ''0xPayer'',
          recipient = ''0xABCD'', amount = ''0.01'', token = ''USDT''\<rparr>"
  let ?C = "\<lambda>w r p q. case requests_post w (settle_url example_client) p q of
           Inl e \<Rightarrow> is_failure r ''0xABCD'' ''0.01'' ''USDT''
         | Inr resp \<Rightarrow>
             if status_code resp \<noteq> 200 then is_failure r ''0xABCD'' ''0.01'' ''USDT''
             else (case body_json resp of
                     Inl e \<Rightarrow> is_failure r ''0xABCD'' ''0.01'' ''USDT''
                   | Inr d \<Rightarrow>
                       (case dict_get d ''success'' (JBool False) of
                          Inl e \<Rightarrow> is_failure r ''0xABCD'' ''0.01'' ''USDT''
                        | Inr s \<Rightarrow> success r = s \<and>
                            (if truthy s then error r = JNull else \<exists>m. error r = JStr m)))"
  have sp: "HttpPost (settle_url example_client) example_payload example_requirements \<in> set ?T"
    by (simp add: example_settle_post_def example_urls)
  have se: "requests_post world_settle_error (settle_url example_client) example_payload
              example_requirements =
            Inr \<lparr>status_code = 500, body_text = ''Internal Server Error'',
                 body_json = Inl (Exn ''JSONDecodeError'' ''Expecting value'')\<rparr>"
    by (simp add: world_settle_error_def example_urls)
  have sr: "requests_post world_settle_refused (settle_url example_client) example_payload
              example_requirements =
            Inr (example_response (JObj [(''success'', JBool False), (''errorReason'', JStr ''nonce used'')]))"
    by (simp add: world_settle_refused_def example_urls)
  have 7: "snd (pay world_settle_error example_client ''0.01'' ''USDT'' ''0xABCD'' 3600 True) = Inr ?F"
    by (simp add: pay_settle_error)
  have 8: "is_failure ?F ''0xABCD'' ''0.01'' ''USDT''"
  proof -
    obtain r where r: "Inr ?F = Inr r"
      and c: "\<forall>p q. HttpPost (settle_url example_client) p q \<in> set ?T \<longrightarrow> ?C world_settle_error r p q"
      using pay_returns_failure_results [OF pay_settle_error] by blast
    from c sp have "?C world_settle_error r example_payload example_requirements" by blast
    then show ?thesis using r by (simp add: se)
  qed
  have 9: "snd (pay world_settle_refused example_client ''0.01'' ''USDT'' ''0xABCD'' 3600 True) = Inr ?R"
    by (simp add: pay_settle_refused)
  have 10: "success ?R = JBool False \<and> (\<exists>m. error ?R = JStr m)"
  proof -
    obtain r where r: "Inr ?R = Inr r"
      and c: "\<forall>p q. HttpPost (settle_url example_client) p q \<in> set ?T \<longrightarrow> ?C world_settle_refused r p q"
      using pay_returns_failure_results [OF pay_settle_refused] by blast
    from c sp have "?C world_settle_refused r example_payload example_requirements" by blast
    then have "success r = JBool False \<and> (\<exists>m. error r = JStr m)"
      by (simp add: sr example_response_def dict_get_def)
    then show ?thesis using r by simp
  qed
  have k: "environ_private_key world_no_key = None"
    by (simp add: world_no_key_def)
  have b: "environ_private_key world_bad_key = Some ''0x01''"
    "account_from_key world_bad_key ''0x01'' = Inl (Exn ''ValueError'' ''bad key'')"
    by (simp_all add: world_bad_key_def example_world_def)
  have d: "map_of
         [(''USD1'', ''0x8d0d000ee44948fc98c9b98a4fa4921476f08b0d''),
          (''USDT'', ''0x55d398326f99059fF775485246999027B3197955''),
          (''USDC'', ''0x8AC76a51cc950d9822D68b83fE1Ad97B32Cd580d'')] ''DAI'' = None"
    "map_of
         [(''USD1'', ''0x8d0d000ee44948fc98c9b98a4fa4921476f08b0d''),
          (''USDT'', ''0x55d398326f99059fF775485246999027B3197955''),
          (''USDC'', ''0x8AC76a51cc950d9822D68b83fE1Ad97B32Cd580d'')] ''USDT'' =
       Some ''0x55d398326f99059fF775485246999027B3197955''"
    by simp_all
  have a: "amount_to_wei (py_repr example_world) ''abc'' =
      Inl (Exn ''ValueError'' (''could not convert string to float: '' @ [CHR 0x27] @ ''abc'' @ [CHR 0x27]))"
    by (simp add: amount_to_wei_abc example_world_fields example_repr_def)
  have n: "\<forall>p q. HttpPost (settle_url example_client) p q \<notin>
             set (fst (pay world_rpc_down example_client ''0.01'' ''USDT'' ''0xABCD'' 3600 True))"
    by (simp add: pay_rpc_down example_allowance_call_def)
  have 1: "snd (pay world_no_key example_client ''0.01'' ''USDT'' ''0xABCD'' 3600 True) =
     Inr (failure ''PRIVATE_KEY environment variable not set'' [] ''0xABCD'' ''0.01'' ''USDT'')"
    using pay_returns_failure_results [OF prod.collapse [symmetric], of world_no_key example_client
        "''0.01''" "''USDT''" "''0xABCD''" 3600 True] k
    by auto
  have 2: "snd (pay world_bad_key example_client ''0.01'' ''USDT'' ''0xABCD'' 3600 True) =
     Inr (failure ''bad key'' [] ''0xABCD'' ''0.01'' ''USDT'')"
    using pay_returns_failure_results [OF prod.collapse [symmetric], of world_bad_key example_client
        "''0.01''" "''USDT''" "''0xABCD''" 3600 True] b
    by auto
  have 3: "snd (pay example_world example_client ''0.01'' ''DAI'' ''0xABCD'' 3600 True) =
     Inr (failure ''Token DAI not supported on mainnet'' ''0xPayer'' ''0xABCD'' ''0.01'' ''DAI'')"
    using pay_returns_failure_results [OF prod.collapse [symmetric], of example_world example_client
        "''0.01''" "''DAI''" "''0xABCD''" 3600 True] example_world_fields(1,2) example_tokens d(1)
    by (auto simp: example_client_fields)
  have 4: "snd (pay example_world example_client ''abc'' ''USDT'' ''0xABCD'' 3600 True) =
     Inr (failure (''could not convert string to float: '' @ [CHR 0x27] @ ''abc'' @ [CHR 0x27]) []
            ''0xABCD'' ''abc'' ''USDT'')"
    using pay_returns_failure_results [OF prod.collapse [symmetric], of example_world example_client
        "''abc''" "''USDT''" "''0xABCD''" 3600 True] example_world_fields(1,2) example_tokens d(2) a
    by auto
  have 5: "snd (pay world_rpc_down example_client ''0.01'' ''USDT'' ''0xABCD'' 3600 True) =
     Inr (failure ''connection refused'' [] ''0xABCD'' ''0.01'' ''USDT'')"
    by (simp add: pay_rpc_down)
  have 6: "is_failure (failure ''connection refused'' [] ''0xABCD'' ''0.01'' ''USDT'') ''0xABCD'' ''0.01'' ''USDT''"
    using pay_returns_failure_results [OF prod.collapse [symmetric], of world_rpc_down example_client
        "''0.01''" "''USDT''" "''0xABCD''" 3600 True] n 5
    by auto
  show ?thesis using 1 2 3 4 5 6 7 8 9 10 by blast
qed

subsection \<open>A transport failure of the settle request\<close>

text \<open>
  Claim C5, as amended.  When the settle request was posted and failed at the transport
  level (the POST raised, or answered with a status other than 200), \<open>pay\<close> returns the
  ordinary failure shape: \<open>success=False\<close>, no transaction, and as error the text of the
  exception, or \<open>Settle request failed: HTTP <status> - <body>\<close>.  The result has no
  separate "unknown outcome" condition.
\<close>

theorem settle_transport_failure_is_plain_failure:
  assumes "pay w self amount' token' recipient' timeout_seconds auto_approve = (tr, res)"
    and "HttpPost (settle_url self) p q \<in> set tr"
    and "case requests_post w (settle_url self) p q of
           Inl e \<Rightarrow> True | Inr resp \<Rightarrow> status_code resp \<noteq> 200"
  shows "\<exists>r. res = Inr r \<and> is_failure r recipient' amount' token' \<and>
     (case requests_post w (settle_url self) p q of
        Inl e \<Rightarrow> r = failure (exn_str e) [] recipient' amount' token'
      | Inr resp \<Rightarrow>
          (case py_str_int (status_code resp) of
             Inl e \<Rightarrow> r = failure (exn_str e) [] recipient' amount' token'
           | Inr sc \<Rightarrow> \<exists>a. r = failure (''Settle request failed: HTTP '' @ sc @ '' - '' @ body_text resp)
                                a recipient' amount' token'))"
  using assms(1)
proof (cases rule: pay_cases)
  case (early r)
  then show ?thesis using assms(2) by (simp add: no_http_post_notin)
next
  case (rejected r pre p' q')
  then show ?thesis using assms(2) by (simp add: no_http_post_notin)
next
  case (settled pre a p' q')
  then have pq: "p' = p" "q' = q"
    using assms(2) by (auto simp: no_http_post_notin)
  have "settle_outcome w self a recipient' amount' token' p q =
     (case requests_post w (settle_url self) p q of
        Inl e \<Rightarrow> failure (exn_str e) [] recipient' amount' token'
      | Inr resp \<Rightarrow>
          (case py_str_int (status_code resp) of
             Inl e \<Rightarrow> failure (exn_str e) [] recipient' amount' token'
           | Inr sc \<Rightarrow> failure (''Settle request failed: HTTP '' @ sc @ '' - '' @ body_text resp)
                                a recipient' amount' token'))"
    using assms(3) unfolding settle_outcome_def pay_settle_def settle_url_def [symmetric]
    by (auto simp: snd_io_bind split: sum.splits)
  then show ?thesis
    using settled(1) unfolding pq by (auto split: sum.splits)
qed

theorem settle_transport_failure_is_plain_failure_witness:
  "pay world_settle_down example_client ''0.01'' ''USDT'' ''0xABCD'' 3600 True =
     (example_allowance_call # example_approve_calls @ [example_verify_post, example_settle_post],
      Inr (failure ''connection refused'' [] ''0xABCD'' ''0.01'' ''USDT'')) \<and>
   requests_post world_settle_down (settle_url example_client) example_payload example_requirements =
     Inl (Exn ''ConnectionError'' ''connection refused'') \<and>
   is_failure (failure ''connection refused'' [] ''0xABCD'' ''0.01'' ''USDT'') ''0xABCD'' ''0.01'' ''USDT''"
proof -
  have m: "HttpPost (settle_url example_client) example_payload example_requirements \<in>
     set (example_allowance_call # example_approve_calls @ [example_verify_post, example_settle_post])"
    by (simp add: example_settle_post_def example_urls)
  have r: "requests_post world_settle_down (settle_url example_client) example_payload example_requirements =
     Inl (Exn ''ConnectionError'' ''connection refused'')"
    by (simp add: world_settle_down_def example_urls)
  show ?thesis
    using settle_transport_failure_is_plain_failure [OF pay_settle_down m] r pay_settle_down
    by simp
qed

text \<open>
  The claim as worded fails: a settle request lost to a network error, after which the
  payment may or may not have been relayed, gives exactly the result of a payment that
  stopped at the allowance read, before anything was signed.
\<close>

theorem settle_failure_indistinguishable_counterexample:
  "snd (pay world_settle_down example_client ''0.01'' ''USDT'' ''0xABCD'' 3600 True) =
   snd (pay world_rpc_down example_client ''0.01'' ''USDT'' ''0xABCD'' 3600 True) \<and>
   example_settle_post \<in> set (fst (pay world_settle_down example_client ''0.01'' ''USDT'' ''0xABCD'' 3600 True)) \<and>
   fst (pay world_rpc_down example_client ''0.01'' ''USDT'' ''0xABCD'' 3600 True) = [example_allowance_call] \<and>
   success (failure ''connection refused'' [] ''0xABCD'' ''0.01'' ''USDT'') = JBool False \<and>
   snd (pay world_settle_down example_client ''0.01'' ''USDT'' ''0xABCD'' 3600 True) =
     Inr (failure ''connection refused'' [] ''0xABCD'' ''0.01'' ''USDT'')"
  by (simp add: pay_settle_down pay_rpc_down) (simp add: failure_def)

subsection \<open>The other public operations raise\<close>

text \<open>
  Claim C10.  With the credential \<open>PRIVATE_KEY\<close> unset (absent or empty), \<open>B402.check_approval\<close>
  and \<open>B402.setup\<close> raise \<open>ValueError\<close>, where \<open>pay\<close> returns a failure result; the same
  holds, the credential being set, for a token symbol that the active network does not
  list.  None of the three makes a network call in these situations.
\<close>

theorem setup_and_check_approval_raise:
  "(environ_private_key w = None \<or> environ_private_key w = Some [] \<longrightarrow>
      B402_check_approval w self token' =
        ([], Inl (Exn ''ValueError'' ''PRIVATE_KEY environment variable not set'')) \<and>
      B402_setup w self token' auto_approve =
        ([], Inl (Exn ''ValueError'' ''PRIVATE_KEY environment variable not set'')) \<and>
      pay w self amount' token' recipient' timeout_seconds auto_approve =
        ([], Inr (failure ''PRIVATE_KEY environment variable not set'' [] recipient' amount' token'))) \<and>
   (\<forall>k tokens. environ_private_key w = Some k \<and> k \<noteq> [] \<and>
      map_of TOKENS (network self) = Some tokens \<and> map_of tokens token' = None \<longrightarrow>
      B402_check_approval w self token' =
        ([], Inl (Exn ''ValueError'' (''Token '' @ token' @ '' not supported on '' @ network self))) \<and>
      B402_setup w self token' auto_approve =
        ([], Inl (Exn ''ValueError'' (''Token '' @ token' @ '' not supported on '' @ network self))) \<and>
      (\<exists>r. pay w self amount' token' recipient' timeout_seconds auto_approve = ([], Inr r) \<and>
           is_failure r recipient' amount' token'))"
proof (intro conjI impI allI)
  assume "environ_private_key w = None \<or> environ_private_key w = Some []"
  then show "B402_check_approval w self token' =
        ([], Inl (Exn ''ValueError'' ''PRIVATE_KEY environment variable not set''))"
    "B402_setup w self token' auto_approve =
        ([], Inl (Exn ''ValueError'' ''PRIVATE_KEY environment variable not set''))"
    "pay w self amount' token' recipient' timeout_seconds auto_approve =
        ([], Inr (failure ''PRIVATE_KEY environment variable not set'' [] recipient' amount' token'))"
    unfolding B402_check_approval_def B402_setup_def pay_def by auto
next
  fix k tokens
  assume h: "environ_private_key w = Some k \<and> k \<noteq> [] \<and>
      map_of TOKENS (network self) = Some tokens \<and> map_of tokens token' = None"
  then show "B402_check_approval w self token' =
        ([], Inl (Exn ''ValueError'' (''Token '' @ token' @ '' not supported on '' @ network self)))"
    "B402_setup w self token' auto_approve =
        ([], Inl (Exn ''ValueError'' (''Token '' @ token' @ '' not supported on '' @ network self)))"
    unfolding B402_check_approval_def B402_setup_def by (auto simp: dict_index_Inr)
  show "\<exists>r. pay w self amount' token' recipient' timeout_seconds auto_approve = ([], Inr r) \<and>
           is_failure r recipient' amount' token'"
  proof (cases "account_from_key w k")
    case (Inl e)
    then show ?thesis using h unfolding pay_def pay_try_def by auto
  next
    case (Inr a)
    then show ?thesis using h unfolding pay_def pay_try_def by (auto simp: dict_index_Inr)
  qed
qed

theorem setup_and_check_approval_raise_witness:
  "B402_check_approval world_no_key example_client ''USDT'' =
     ([], Inl (Exn ''ValueError'' ''PRIVATE_KEY environment variable not set'')) \<and>
   B402_setup world_no_key example_client ''USDT'' True =
     ([], Inl (Exn ''ValueError'' ''PRIVATE_KEY environment variable not set'')) \<and>
   pay world_no_key example_client ''0.01'' ''USDT'' ''0xABCD'' 3600 True =
     ([], Inr (failure ''PRIVATE_KEY environment variable not set'' [] ''0xABCD'' ''0.01'' ''USDT'')) \<and>
   B402_check_approval example_world example_client ''DAI'' =
     ([], Inl (Exn ''ValueError'' ''Token DAI not supported on mainnet'')) \<and>
   B402_setup example_world example_client ''DAI'' True =
     ([], Inl (Exn ''ValueError'' ''Token DAI not supported on mainnet'')) \<and>
   (\<exists>r. pay example_world example_client ''0.01'' ''DAI'' ''0xABCD'' 3600 True = ([], Inr r) \<and>
        is_failure r ''0xABCD'' ''0.01'' ''DAI'')"
proof -
  have k: "environ_private_key world_no_key = None"
    by (simp add: world_no_key_def)
  have d: "map_of
         [(''USD1'', ''0x8d0d000ee44948fc98c9b98a4fa4921476f08b0d''),
          (''USDT'', ''0x55d398326f99059fF775485246999027B3197955''),
          (''USDC'', ''0x8AC76a51cc950d9822D68b83fE1Ad97B32Cd580d'')] ''DAI'' = None"
    by simp
  show ?thesis
    using setup_and_check_approval_raise [of world_no_key example_client "''USDT''" True "''0.01''"
        "''0xABCD''" 3600]
      setup_and_check_approval_raise [of example_world example_client "''DAI''" True "''0.01''"
        "''0xABCD''" 3600]
      k example_world_fields(1) example_tokens d
    by (simp add: example_client_fields)
qed

subsection \<open>The allowance check without a minimum\<close>

lemma check_approval_default_always_approved:
  "snd (check_approval w private_key token_address spender_address network' min_amount_default) = Inr (b, al)
     \<Longrightarrow> b"
  unfolding check_approval_def min_amount_default_def
  by (auto simp: snd_io_bind split: sum.splits)

lemma ensure_approval_never_approves:
  "filter is_approve (fst (ensure_approval w private_key token_address spender_address network' auto_approve)) = []"
proof -
  have c: "filter is_approve (fst (check_approval w private_key token_address spender_address network' min_amount_default)) = []"
    unfolding check_approval_def by (simp add: fst_io_bind snd_io_bind split: sum.splits)
  show ?thesis
  proof (cases "snd (check_approval w private_key token_address spender_address network' min_amount_default)")
    case (Inl e)
    then show ?thesis unfolding ensure_approval_def by (simp add: fst_io_bind c)
  next
    case (Inr x)
    obtain b al where x: "x = (b, al)" by (cases x)
    have b using check_approval_default_always_approved Inr x by blast
    then show ?thesis
      unfolding ensure_approval_def using Inr x by (simp add: fst_io_bind c)
  qed
qed

text \<open>
  Claim C3 does not hold of the code.  Without a minimum, \<open>check_approval\<close> compares
  \<open>allowance >= 0\<close>, which every allowance satisfies: an allowance of exactly zero is
  reported as approved, by \<open>B402.check_approval\<close> and by \<open>B402.setup\<close>, which therefore
  never sends an approval (\<open>ensure_approval_never_approves\<close>).
\<close>

theorem zero_allowance_reported_approved:
  "call_allowance example_world ''https://bsc-dataseed1.binance.org''
       ''0x55d398326f99059fF775485246999027B3197955'' ''0xPayer''
       ''0xE1C2830d5DDd6B49E9c46EbE03a98Cb44CD8eA5a'' = Inr 0 \<and>
   B402_check_approval example_world example_client ''USDT'' = ([example_allowance_call], Inr (True, 0)) \<and>
   B402_setup example_world example_client ''USDT'' True =
     ([example_allowance_call], Inr \<lparr>approved = True, allowance = 0, approval_tx_hash = None\<rparr>)"
proof -
  have c: "check_approval example_world ''0x01'' ''0x55d398326f99059fF775485246999027B3197955''
     ''0xE1C2830d5DDd6B49E9c46EbE03a98Cb44CD8eA5a'' ''mainnet'' min_amount_default =
     ([example_allowance_call], Inr (True, 0))"
    by (subst check_approval_example [OF refl])
       (simp_all add: example_world_def min_amount_default_def io_pure_def)
  have t: "map_of [(''USD1'', ''0x8d0d000ee44948fc98c9b98a4fa4921476f08b0d''),
          (''USDT'', ''0x55d398326f99059fF775485246999027B3197955''),
          (''USDC'', ''0x8AC76a51cc950d9822D68b83fE1Ad97B32Cd580d'')] ''USDT'' =
       Some ''0x55d398326f99059fF775485246999027B3197955''"
    by simp
  show ?thesis
    unfolding B402_check_approval_def B402_setup_def ensure_approval_def
    by (simp add: example_world_fields example_client_fields example_lookups t c)
       (simp add: example_world_def io_bind_def io_pure_def)
qed

subsection \<open>The amount in base units\<close>

text \<open>
  Claim C7 does not hold of the code.  The amount goes through binary floating point:
  for the amount \<open>0.07\<close> the code computes 70000000000000008 base units, eight more than
  \<open>floor(0.07 * 10^18) = 70000000000000000\<close>, and that number is what the requirements and
  the signed authorization carry.  (The example of the specification, \<open>0.01\<close>, converts
  exactly.)
\<close>

theorem amount_conversion_rounding:
  "amount_to_wei rp ''0.07'' = Inr 70000000000000008 \<and>
   (7 * 10 ^ 18) div 100 = (70000000000000000 :: int) \<and>
   py_str_int 70000000000000008 = Inr ''70000000000000008'' \<and>
   py_int rp ''70000000000000008'' = Inr 70000000000000008 \<and>
   amount_to_wei rp ''0.01'' = Inr 10000000000000000"
proof -
  have "py_str_int 70000000000000008 = Inr ''70000000000000008''"
    by (simp add: py_str_int_def digits_of_nat.simps digit_char_def int_max_str_digits_def)
  moreover have "py_int rp ''70000000000000008'' = Inr 70000000000000008"
    by (simp add: py_int_def py_strip_def is_space_def split_sign_def is_digit_def digit_val_def
        digit_table_def int_max_str_digits_def)
  ultimately show ?thesis
    by (simp add: amount_to_wei_007 amount_to_wei_001)
qed

subsection \<open>The automatic approval\<close>

lemma io_bind_pair_Inr: "io_bind (tr, Inr x) f = (tr @ fst (f x), snd (f x))"
  by (simp add: io_bind_def split: prod.splits)

lemma io_bind_pair_Inl: "io_bind (tr, Inl e) f = (tr, Inl e)"
  by (simp add: io_bind_def)

lemma approve_token_events:
  assumes "approve_token w private_key token_address spender_address network' (Some amt) = (tra, ra)"
  shows "(\<forall>ev \<in> set tra. is_approve ev \<longrightarrow> (\<exists>rpc tok sp n. ev = ApproveTransaction rpc tok sp amt n))
         \<and> length (filter is_approve tra) \<le> 1
         \<and> (\<forall>h. ra = Inr h \<longrightarrow> length (filter is_approve tra) = 1)"
proof -
  have t: "tra = fst (approve_token w private_key token_address spender_address network' (Some amt))"
    and r: "ra = snd (approve_token w private_key token_address spender_address network' (Some amt))"
    using assms by simp_all
  show ?thesis
    unfolding t r approve_token_def Let_def
    by (auto simp: fst_io_bind snd_io_bind split: sum.splits)
qed

lemma check_approval_no_approve:
  "filter is_approve (fst (check_approval w private_key token_address spender_address network' mn)) = []"
  unfolding check_approval_def by (simp add: fst_io_bind snd_io_bind split: sum.splits)

lemma pay_verify_no_approve:
  "filter is_approve (fst (pay_verify w self a rc am tk p q)) = []"
proof (cases "verify_valid w self p q")
  case True
  then show ?thesis by (simp add: pay_verify_valid)
next
  case False
  then have "fst (pay_verify w self a rc am tk p q) = [HttpPost (verify_url self) p q]"
    unfolding pay_verify_def verify_valid_def verify_url_def [symmetric]
    by (auto simp: fst_io_bind snd_io_bind split: sum.splits)
  then show ?thesis by simp
qed

lemma pay_proceed_no_approve:
  "filter is_approve (fst (pay_proceed w self key a rc am tk ta wei tmo)) = []"
  unfolding pay_proceed_def Let_def
  by (simp add: fst_io_bind snd_io_bind pay_verify_no_approve split: sum.splits)

lemma pay_proceed_example_world:
  "pay_proceed example_world example_client ''0x01'' ''0xPayer'' ''0xABCD'' ''0.01'' ''USDT''
     ''0x55d398326f99059fF775485246999027B3197955'' 10000000000000000 3600 =
   ([example_verify_post, example_settle_post], Inr example_success)"
proof -
  have v: "verify_valid example_world example_client example_payload example_requirements"
    by (simp add: verify_valid_def example_urls example_world_def example_response_def dict_get_def)
  have s: "snd (pay_settle example_world example_client ''0xPayer'' ''0xABCD'' ''0.01'' ''USDT''
             example_payload example_requirements) = Inr example_success"
    unfolding pay_settle_def
    by (simp add: example_client_fields example_world_def example_response_def dict_get_def
        example_success_def)
  show ?thesis
    unfolding pay_proceed_example [OF example_like_example_world] pay_verify_valid [OF v] s
    by (simp add: example_urls example_verify_post_def example_settle_post_def)
qed

lemma check_approval_example_world:
  "check_approval example_world ''0x01'' ''0x55d398326f99059fF775485246999027B3197955''
     ''0xE1C2830d5DDd6B49E9c46EbE03a98Cb44CD8eA5a'' ''mainnet'' 10000000000000000 =
   ([example_allowance_call], Inr (False, 0))"
  by (subst check_approval_example [OF refl])
     (simp_all add: example_world_def io_pure_def)

text \<open>
  Claim C4, as amended.  When the allowance read by \<open>pay\<close> is below the amount in base
  units and auto-approval is enabled, \<open>pay\<close> calls \<open>approve_token\<close> once, for exactly
  \<open>max(amount_wei, default_cap)\<close> with \<open>default_cap = 10000 * 10^18\<close>: at most one approval
  transaction is sent, exactly one when the approval returns, and none by any other step.
  If the approval raises, \<open>pay\<close> ends with the failure \<open>Auto-approval failed: ...\<close>;
  otherwise it goes on to sign, verify and settle, and its result is that of the payment:
  neither the allowance nor the identifier of the approval transaction is part of it.
\<close>

theorem auto_approve_amount:
  assumes "environ_private_key w = Some private_key" and "private_key \<noteq> []"
    and "account_from_key w private_key = Inr address"
    and "map_of TOKENS (network self) = Some tokens"
    and "map_of tokens token' = Some token_address" and "token_address \<noteq> []"
    and "amount_to_wei (py_repr w) amount' = Inr amount_wei"
    and "map_of RELAYERS (network self) = Some relayer"
    and "check_approval w private_key token_address relayer (network self) amount_wei =
           (trc, Inr (False, current_allowance))"
    and "approve_token w private_key token_address relayer (network self)
           (Some (max amount_wei default_cap)) = (tra, ra)"
    and "pay_proceed w self private_key address recipient' amount' token' token_address amount_wei
           timeout_seconds = (trp, rp)"
  shows "default_cap = 10000 * 10 ^ 18 \<and> int current_allowance < amount_wei \<and>
    pay w self amount' token' recipient' timeout_seconds True =
      (case ra of
         Inl e \<Rightarrow>
           (trc @ tra,
            Inr (failure (''Auto-approval failed: '' @ exn_str e @ ''. Please run: b402.setup('' @
                          [CHR 0x27] @ token' @ [CHR 0x27] @ '')'')
                   address recipient' amount' token'))
       | Inr h \<Rightarrow>
           (trc @ tra @ trp,
            Inr (case rp of Inl e \<Rightarrow> failure (exn_str e) [] recipient' amount' token' | Inr r \<Rightarrow> r))) \<and>
    filter is_approve trc = [] \<and> filter is_approve trp = [] \<and>
    (\<forall>ev \<in> set tra. is_approve ev \<longrightarrow>
       (\<exists>rpc tok sp n. ev = ApproveTransaction rpc tok sp (max amount_wei default_cap) n)) \<and>
    length (filter is_approve tra) \<le> 1 \<and>
    (\<forall>h. ra = Inr h \<longrightarrow> length (filter is_approve tra) = 1)"
proof -
  have lt: "int current_allowance < amount_wei"
  proof -
    have "snd (check_approval w private_key token_address relayer (network self) amount_wei) =
        Inr (False, current_allowance)"
      using assms(9) by simp
    then show ?thesis
      unfolding check_approval_def by (auto simp: snd_io_bind split: sum.splits)
  qed
  have c: "filter is_approve trc = []"
    using check_approval_no_approve [of w private_key token_address relayer "network self" amount_wei]
      assms(9) by simp
  have p: "filter is_approve trp = []"
    using pay_proceed_no_approve [of w self private_key address recipient' amount' token' token_address
        amount_wei timeout_seconds] assms(11) by simp
  have a: "pay_approve w self private_key address recipient' amount' token' token_address amount_wei
       timeout_seconds True current_allowance =
     (case ra of
         Inl e \<Rightarrow>
           (tra,
            Inr (failure (''Auto-approval failed: '' @ exn_str e @ ''. Please run: b402.setup('' @
                          [CHR 0x27] @ token' @ [CHR 0x27] @ '')'')
                   address recipient' amount' token'))
       | Inr h \<Rightarrow> (tra @ trp, rp))"
    unfolding pay_approve_def
    by (simp add: dict_index_Inr [OF assms(8)] assms(10) assms(11) io_bind_pair_Inr split: sum.splits)
  have t: "pay_try w self private_key amount' token' recipient' timeout_seconds True =
     (case ra of
         Inl e \<Rightarrow>
           (trc @ tra,
            Inr (failure (''Auto-approval failed: '' @ exn_str e @ ''. Please run: b402.setup('' @
                          [CHR 0x27] @ token' @ [CHR 0x27] @ '')'')
                   address recipient' amount' token'))
       | Inr h \<Rightarrow> (trc @ tra @ trp, rp))"
    unfolding pay_try_def
    by (simp add: assms(3) dict_index_Inr [OF assms(4)] assms(5,6,7) dict_index_Inr [OF assms(8)]
        assms(9) io_bind_pair_Inr a split: sum.splits)
  have e: "pay w self amount' token' recipient' timeout_seconds True =
      (case ra of
         Inl e \<Rightarrow>
           (trc @ tra,
            Inr (failure (''Auto-approval failed: '' @ exn_str e @ ''. Please run: b402.setup('' @
                          [CHR 0x27] @ token' @ [CHR 0x27] @ '')'')
                   address recipient' amount' token'))
       | Inr h \<Rightarrow>
           (trc @ tra @ trp,
            Inr (case rp of Inl e \<Rightarrow> failure (exn_str e) [] recipient' amount' token' | Inr r \<Rightarrow> r)))"
    unfolding pay_def by (simp add: assms(1,2) t split: sum.splits)
  show ?thesis
    using lt c p e approve_token_events [OF assms(10)] by (simp add: default_cap_def)
qed

theorem auto_approve_amount_witness:
  "pay example_world example_client ''0.01'' ''USDT'' ''0xABCD'' 3600 True =
     ([example_allowance_call] @ example_approve_calls @ [example_verify_post, example_settle_post],
      Inr example_success) \<and>
   int 0 < 10000000000000000 \<and>
   max 10000000000000000 default_cap = 10000 * 10 ^ 18 \<and>
   filter is_approve example_approve_calls =
     [ApproveTransaction ''https://bsc-dataseed1.binance.org''
        ''0x55d398326f99059fF775485246999027B3197955''
        ''0xE1C2830d5DDd6B49E9c46EbE03a98Cb44CD8eA5a'' (10000 * 10 ^ 18) 7] \<and>
   length (filter is_approve example_approve_calls) = 1"
proof -
  have t: "map_of [(''USD1'', ''0x8d0d000ee44948fc98c9b98a4fa4921476f08b0d''),
          (''USDT'', ''0x55d398326f99059fF775485246999027B3197955''),
          (''USDC'', ''0x8AC76a51cc950d9822D68b83fE1Ad97B32Cd580d'')] ''USDT'' =
       Some ''0x55d398326f99059fF775485246999027B3197955''"
    by simp
  have r: "map_of RELAYERS (network example_client) = Some ''0xE1C2830d5DDd6B49E9c46EbE03a98Cb44CD8eA5a''"
    by (simp add: RELAYERS_def example_client_fields)
  have a: "amount_to_wei (py_repr example_world) ''0.01'' = Inr 10000000000000000"
    by (rule amount_to_wei_001)
  have n: "network example_client = ''mainnet''"
    by (rule example_client_fields)
  have f: "filter is_approve example_approve_calls =
     [ApproveTransaction ''https://bsc-dataseed1.binance.org''
        ''0x55d398326f99059fF775485246999027B3197955''
        ''0xE1C2830d5DDd6B49E9c46EbE03a98Cb44CD8eA5a'' (10000 * 10 ^ 18) 7]"
    by (simp add: example_approve_calls_def)
  show ?thesis
    using auto_approve_amount [OF example_world_fields(1) _ example_world_fields(2) example_tokens t _ a r
        check_approval_example_world [folded n] approve_token_example [OF example_like_example_world, folded n]
        pay_proceed_example_world]
      f
    by (simp add: default_cap_def)
qed

text \<open>
  The claim as worded fails in its last part: after an approval with transaction
  \<open>0xa1\<close>, \<open>pay\<close> returns the settlement's transaction \<open>0x1234\<close> and no allowance.
\<close>

theorem approval_id_not_returned_counterexample:
  "pay example_world example_client ''0.01'' ''USDT'' ''0xABCD'' 3600 True =
     (example_allowance_call # example_approve_calls @ [example_verify_post, example_settle_post],
      Inr example_success) \<and>
   approve_token example_world ''0x01'' ''0x55d398326f99059fF775485246999027B3197955''
     ''0xE1C2830d5DDd6B49E9c46EbE03a98Cb44CD8eA5a'' ''mainnet''
     (Some (max 10000000000000000 default_cap)) = (example_approve_calls, Inr ''0xa1'') \<and>
   example_success =
     \<lparr>success = JBool True, tx_hash = JStr ''0x1234'', error = JNull, payer = ''0xPayer'',
      recipient = ''0xABCD'', amount = ''0.01'', token = ''USDT''\<rparr> \<and>
   tx_hash example_success \<noteq> JStr ''0xa1''"
  by (simp add: pay_example approve_token_example [OF example_like_example_world])
     (simp add: example_success_def)

subsection \<open>Insufficient allowance without auto-approval\<close>

text \<open>Both divisions by \<open>10^18\<close> of the message return: a float converted to an integer, and a
  \<open>uint256\<close>, are below \<open>2^1024\<close> in absolute value.\<close>

lemma bit_length_bounds:
  "n < 2 ^ bit_length n \<and> (0 < n \<longrightarrow> 2 ^ bit_length n \<le> 2 * n)"
proof (induction n rule: bit_length.induct)
  case (1 n)
  show ?case
  proof (cases "n = 0")
    case True
    then show ?thesis by (simp add: bit_length.simps)
  next
    case False
    then have b: "bit_length n = Suc (bit_length (n div 2))"
      by (subst bit_length.simps) simp
    from 1 [OF False] have ih: "n div 2 < 2 ^ bit_length (n div 2)"
      "0 < n div 2 \<longrightarrow> 2 ^ bit_length (n div 2) \<le> 2 * (n div 2)"
      by simp_all
    have u: "n < 2 ^ bit_length n"
      unfolding b using ih(1) by auto
    have l: "2 ^ bit_length n \<le> 2 * n"
    proof (cases "n div 2 = 0")
      case True
      then have "n = 1" using False by linarith
      then show ?thesis unfolding b using True by (simp add: bit_length.simps)
    next
      case False
      then have "2 ^ bit_length (n div 2) \<le> 2 * (n div 2)" using ih(2) by simp
      then show ?thesis unfolding b by auto
    qed
    show ?thesis using u l by simp
  qed
qed

lemma bit_length_le: "n < 2 ^ j \<Longrightarrow> bit_length n \<le> j"
proof (cases "n = 0")
  case True
  then show ?thesis by (simp add: bit_length.simps)
next
  case False
  assume "n < 2 ^ j"
  moreover have "2 ^ bit_length n \<le> 2 * n" using bit_length_bounds [of n] False by simp
  ultimately have "(2::nat) ^ bit_length n < 2 ^ Suc j" by simp
  then have "bit_length n < Suc j" using power_less_imp_less_exp [of 2 "bit_length n" "Suc j"] by simp
  then show ?thesis by simp
qed

lemma round_half_even_le:
  assumes "0 < b" and "p \<le> c * b"
  shows "round_half_even p b \<le> c"
proof -
  define q where "q = p div b"
  define r where "r = p mod b"
  have p: "p = q * b + r" and r: "0 \<le> r" "r < b"
    using assms(1) by (simp_all add: q_def r_def)
  have le: "round_half_even p b \<le> q + 1" and z: "r = 0 \<Longrightarrow> round_half_even p b = q"
    using assms(1) unfolding round_half_even_def Let_def q_def [symmetric] r_def [symmetric] by auto
  show ?thesis
  proof (cases "q + 1 \<le> c")
    case True
    then show ?thesis using le by simp
  next
    case False
    then have "c \<le> q" by simp
    then have "c * b \<le> q * b" using assms(1) by (simp add: mult_right_mono)
    then have "r = 0" using assms(2) p r by linarith
    moreover from this have "q * b \<le> c * b" using assms(2) p by simp
    then have "q \<le> c" using assms(1) by simp
    ultimately show ?thesis using z by simp
  qed
qed

lemma round_half_even_nonneg:
  assumes "0 < b" and "0 \<le> p"
  shows "0 \<le> round_half_even p b"
proof -
  have "0 \<le> p div b" using assms by (simp add: pos_imp_zdiv_nonneg_iff)
  then show ?thesis unfolding round_half_even_def Let_def by auto
qed


lemma quotient_below_power:
  fixes a d :: int
  assumes "0 < a" and "0 < d"
    and "k = int (bit_length (nat a)) - int (bit_length (nat d))"
    and "lg = (if (if 0 \<le> k then d * 2 ^ nat k \<le> a else d \<le> a * 2 ^ nat (- k)) then k else k - 1)"
  shows "real_of_int a < real_of_int d * 2 powi (lg + 1)"
proof (cases "if 0 \<le> k then d * 2 ^ nat k \<le> a else d \<le> a * 2 ^ nat (- k)")
  case True
  then have lg: "lg = k" using assms(4) by simp
  have "nat a < 2 ^ bit_length (nat a)" using bit_length_bounds by blast
  then have "real (nat a) < real (2 ^ bit_length (nat a))" by (rule less_imp_of_nat_less)
  then have ua: "real_of_int a < 2 ^ bit_length (nat a)" using assms(1) by simp
  have "2 ^ bit_length (nat d) \<le> 2 * nat d" using bit_length_bounds [of "nat d"] assms(2) by simp
  then have "real (2 ^ bit_length (nat d)) \<le> real (2 * nat d)" by (rule of_nat_mono)
  then have ld: "(2::real) ^ bit_length (nat d) \<le> 2 * real_of_int d" using assms(2) by simp
  have "(2::real) powi (lg + 1) = 2 ^ bit_length (nat a) * 2 / 2 ^ bit_length (nat d)"
    unfolding lg assms(3) by (simp add: power_int_add power_int_diff)
  then have "real_of_int d * 2 powi (lg + 1) =
      2 ^ bit_length (nat a) * (2 * real_of_int d / 2 ^ bit_length (nat d))"
    by simp
  moreover have "1 \<le> 2 * real_of_int d / 2 ^ bit_length (nat d)"
    using ld by simp
  then have "(2::real) ^ bit_length (nat a) * 1 \<le>
      2 ^ bit_length (nat a) * (2 * real_of_int d / 2 ^ bit_length (nat d))"
    by (intro mult_left_mono) simp_all
  ultimately have "(2::real) ^ bit_length (nat a) \<le> real_of_int d * 2 powi (lg + 1)"
    by simp
  with ua show ?thesis by (rule less_le_trans)
next
  case False
  then have lg: "lg = k - 1" using assms(4) by simp
  show ?thesis
  proof (cases "0 \<le> k")
    case True
    with False have "a < d * 2 ^ nat k" by simp
    then have "real_of_int a < real_of_int (d * 2 ^ nat k)" by (simp only: of_int_less_iff)
    then show ?thesis unfolding lg using True by (simp add: power_int_nonneg_exp)
  next
    case k: False
    with False have "a * 2 ^ nat (- k) < d" by simp
    then have "real_of_int (a * 2 ^ nat (- k)) < real_of_int d" by (simp only: of_int_less_iff)
    then have "real_of_int a * 2 ^ nat (- k) < real_of_int d" by simp
    then have "real_of_int a < real_of_int d / 2 ^ nat (- k)"
      by (simp add: pos_less_divide_eq)
    moreover have "(2::real) powi k = 1 / 2 ^ nat (- k)"
      using k power_int_minus_divide [of "2::real" "- k"] by (simp add: power_int_nonneg_exp)
    ultimately show ?thesis unfolding lg by simp
  qed
qed

lemma scaled_quotient_bounds:
  fixes a d :: int
  assumes "0 < a" and "0 < d"
    and "k = int (bit_length (nat a)) - int (bit_length (nat d))"
    and "lg = (if (if 0 \<le> k then d * 2 ^ nat k \<le> a else d \<le> a * 2 ^ nat (- k)) then k else k - 1)"
    and "e = max (lg - 52) (- 1074)"
  shows "0 \<le> scaled_quotient a d e \<and> scaled_quotient a d e \<le> 2 ^ 53"
proof -
  have q: "real_of_int a < real_of_int d * 2 powi (lg + 1)"
    by (rule quotient_below_power [OF assms(1-4)])
  have "lg + 1 \<le> e + 53" using assms(5) by simp
  then have "(2::real) powi (lg + 1) \<le> 2 powi (e + 53)"
    by (intro power_int_increasing) simp_all
  also have "\<dots> = 2 powi e * 2 ^ 53" by (simp add: power_int_add)
  finally have "real_of_int d * 2 powi (lg + 1) \<le> real_of_int d * (2 powi e * 2 ^ 53)"
    using assms(2) by (intro mult_left_mono) simp_all
  with q have b: "real_of_int a < real_of_int d * (2 powi e * 2 ^ 53)" by simp
  show ?thesis
  proof (cases "0 \<le> e")
    case True
    then have "real_of_int a < real_of_int (2 ^ 53 * (d * 2 ^ nat e))"
      using b by (simp add: power_int_nonneg_exp mult_ac)
    then have "a \<le> 2 ^ 53 * (d * 2 ^ nat e)" by (simp only: of_int_less_iff)
    then have "round_half_even a (d * 2 ^ nat e) \<le> 2 ^ 53"
      using assms(2) by (intro round_half_even_le) simp_all
    moreover have "0 \<le> round_half_even a (d * 2 ^ nat e)"
      using assms(1,2) by (intro round_half_even_nonneg) simp_all
    ultimately show ?thesis using True by (simp add: scaled_quotient_def)
  next
    case False
    then have p: "(2::real) powi e = 1 / 2 ^ nat (- e)"
      using power_int_minus_divide [of "2::real" "- e"] by (simp add: power_int_nonneg_exp)
    have "real_of_int a < real_of_int d * 2 ^ 53 / 2 ^ nat (- e)"
      using b unfolding p by simp
    then have "real_of_int a * 2 ^ nat (- e) < real_of_int d * 2 ^ 53"
      by (simp add: pos_less_divide_eq)
    then have "real_of_int (a * 2 ^ nat (- e)) < real_of_int (2 ^ 53 * d)" by (simp add: mult_ac)
    then have "a * 2 ^ nat (- e) \<le> 2 ^ 53 * d" by (simp only: of_int_less_iff)
    then have "round_half_even (a * 2 ^ nat (- e)) d \<le> 2 ^ 53"
      using assms(2) by (intro round_half_even_le) simp_all
    moreover have "0 \<le> round_half_even (a * 2 ^ nat (- e)) d"
      using assms(1,2) by (intro round_half_even_nonneg) simp_all
    ultimately show ?thesis using False by (simp add: scaled_quotient_def)
  qed
qed

lemma round_binary64_Finite_bounds:
  assumes "0 < d" and "round_binary64 n d = Finite m e"
  shows "\<bar>m\<bar> \<le> 2 ^ 53 \<and> e \<le> 971 \<and> (e = 971 \<longrightarrow> \<bar>m\<bar> < 2 ^ 53)"
proof (cases "n = 0")
  case True
  then show ?thesis using assms(2) by (simp add: round_binary64_def)
next
  case False
  define k where "k = int (bit_length (nat \<bar>n\<bar>)) - int (bit_length (nat d))"
  define lg where "lg = (if (if 0 \<le> k then d * 2 ^ nat k \<le> \<bar>n\<bar> else d \<le> \<bar>n\<bar> * 2 ^ nat (- k)) then k else k - 1)"
  define e0 where "e0 = max (lg - 52) (- 1074)"
  define m0 where "m0 = scaled_quotient \<bar>n\<bar> d e0"
  have r: "round_binary64 n d =
    (if 971 < e0 \<or> (e0 = 971 \<and> 2 ^ 53 \<le> m0) then Infinity (n < 0)
     else Finite (if n < 0 then - m0 else m0) e0)"
    by (rule round_binary64_eval [OF False refl refl k_def lg_def e0_def m0_def])
  have b: "0 \<le> m0 \<and> m0 \<le> 2 ^ 53"
    unfolding m0_def using False assms(1)
    by (intro scaled_quotient_bounds [OF _ _ k_def lg_def e0_def]) simp_all
  from assms(2) r have c: "\<not> (971 < e0 \<or> (e0 = 971 \<and> 2 ^ 53 \<le> m0))"
    and m: "m = (if n < 0 then - m0 else m0)" and e: "e = e0"
    by (auto split: if_splits)
  have "\<bar>m\<bar> = m0" using m b by simp
  then show ?thesis using b c e by auto
qed


lemma py_int_of_float_bound:
  assumes "\<bar>m\<bar> \<le> 2 ^ 53" and "e \<le> 971" and "e = 971 \<longrightarrow> \<bar>m\<bar> < 2 ^ 53"
    and "py_int_of_float (Finite m e) = Inr v"
  shows "\<bar>v\<bar> < 2 ^ 1024"
proof (cases "0 \<le> e")
  case True
  then have v: "\<bar>v\<bar> = \<bar>m\<bar> * 2 ^ nat e" using assms(4) by (auto simp: abs_mult)
  show ?thesis
  proof (cases "e = 971")
    case True
    then have "\<bar>m\<bar> * 2 ^ nat e < 2 ^ 53 * 2 ^ 971"
      using assms(3) by simp
    then show ?thesis unfolding v by simp
  next
    case False
    then have "nat e \<le> 970" using assms(2) by simp
    then have "(2::int) ^ nat e \<le> 2 ^ 970" by (intro power_increasing) simp_all
    then have "\<bar>m\<bar> * 2 ^ nat e \<le> 2 ^ 53 * 2 ^ 970"
      using assms(1) by (intro mult_mono) simp_all
    then show ?thesis unfolding v by simp
  qed
next
  case False
  have d: "0 \<le> x \<Longrightarrow> x div 2 ^ nat (- e) \<le> x" for x :: int
    by (metis int_div_less_self nle_le order_less_imp_le one_le_numeral one_le_power
        div_by_1 pos_imp_zdiv_nonneg_iff zdiv_mono2 zero_less_one)
  have "\<bar>v\<bar> \<le> \<bar>m\<bar>"
  proof (cases "0 \<le> m")
    case True
    then have "v = m div 2 ^ nat (- e)" using assms(4) False by simp
    moreover have "0 \<le> m div 2 ^ nat (- e)" using True by (simp add: pos_imp_zdiv_nonneg_iff)
    ultimately show ?thesis using d [OF True] True by simp
  next
    case m: False
    then have "v = - ((- m) div 2 ^ nat (- e))" using assms(4) False by simp
    moreover have "0 \<le> (- m) div 2 ^ nat (- e)" using m by (simp add: pos_imp_zdiv_nonneg_iff)
    ultimately show ?thesis using d [of "- m"] m by simp
  qed
  then show ?thesis using assms(1) by simp
qed

lemma amount_to_wei_bound:
  assumes "amount_to_wei rp s = Inr wei"
  shows "\<bar>wei\<bar> < 2 ^ 1024"
proof -
  from assms obtain x where x: "py_float rp s = Inr x"
    and v: "py_int_of_float (float_mul x (Finite 7812500000000000 7)) = Inr wei"
    unfolding amount_to_wei_def float_of_int_1e18 exn_bind_eq_Inr by auto
  show ?thesis
  proof (cases x)
    case (Finite m1 e1)
    define n where "n = m1 * 7812500000000000"
    define j where "j = e1 + 7"
    have f: "float_mul x (Finite 7812500000000000 7) = round_dyadic n j"
      unfolding Finite n_def j_def by simp
    have "\<exists>d n'. 0 < d \<and> round_dyadic n j = round_binary64 n' d"
    proof (cases "0 \<le> j")
      case True
      then show ?thesis
        unfolding round_dyadic_def by (intro exI [of _ 1] exI [of _ "n * 2 ^ nat j"]) simp
    next
      case False
      then show ?thesis
        unfolding round_dyadic_def by (intro exI [of _ "2 ^ nat (- j)"] exI [of _ n]) simp
    qed
    then obtain d n' where d: "0 < d" and r: "round_dyadic n j = round_binary64 n' d"
      by blast
    show ?thesis
    proof (cases "round_binary64 n' d")
      case (Finite m e)
      have "\<bar>m\<bar> \<le> 2 ^ 53 \<and> e \<le> 971 \<and> (e = 971 \<longrightarrow> \<bar>m\<bar> < 2 ^ 53)"
        by (rule round_binary64_Finite_bounds [OF d Finite])
      then show ?thesis
        using v unfolding f r Finite by (intro py_int_of_float_bound [of m e wei]) simp_all
    next
      case (Infinity b)
      then show ?thesis using v unfolding f r by simp
    next
      case NaN
      then show ?thesis using v unfolding f r by simp
    qed
  next
    case (Infinity b)
    then show ?thesis using v by simp
  next
    case NaN
    then show ?thesis using v by simp
  qed
qed

lemma bit_length_1e18: "bit_length (nat (10 ^ 18)) = 60"
  by simp

lemma py_true_div_returns:
  assumes "\<bar>a\<bar> < 2 ^ 1024"
  shows "\<exists>f. py_true_div a (10 ^ 18) = Inr f"
proof (cases "a = 0")
  case True
  then show ?thesis by (simp add: py_true_div_def round_binary64_def)
next
  case False
  define k where "k = int (bit_length (nat \<bar>a\<bar>)) - int (bit_length (nat (10 ^ 18)))"
  define lg where "lg = (if (if 0 \<le> k then 10 ^ 18 * 2 ^ nat k \<le> \<bar>a\<bar> else 10 ^ 18 \<le> \<bar>a\<bar> * 2 ^ nat (- k)) then k else k - 1)"
  define e0 where "e0 = max (lg - 52) (- 1074)"
  define m0 where "m0 = scaled_quotient \<bar>a\<bar> (10 ^ 18) e0"
  have r: "round_binary64 a (10 ^ 18) =
    (if 971 < e0 \<or> (e0 = 971 \<and> 2 ^ 53 \<le> m0) then Infinity (a < 0)
     else Finite (if a < 0 then - m0 else m0) e0)"
    by (rule round_binary64_eval [OF False refl refl k_def lg_def e0_def m0_def])
  have "nat \<bar>a\<bar> < 2 ^ 1024" using assms by (simp add: nat_less_iff)
  then have "bit_length (nat \<bar>a\<bar>) \<le> 1024" by (rule bit_length_le)
  then have "k \<le> 964" unfolding k_def bit_length_1e18 by simp
  then have "lg \<le> 964" unfolding lg_def by simp
  then have "e0 \<le> 912" unfolding e0_def by simp
  then have "round_binary64 a (10 ^ 18) = Finite (if a < 0 then - m0 else m0) e0"
    unfolding r by simp
  then show ?thesis by (simp add: py_true_div_def)
qed

lemma allowance_readable_returns:
  assumes "(current_allowance::nat) < 2 ^ 256"
  shows "\<exists>h. py_true_div (int current_allowance) (10 ^ 18) = Inr h"
proof -
  have "int current_allowance < 2 ^ 256" using assms by (metis of_nat_less_iff of_nat_numeral of_nat_power)
  then have "\<bar>int current_allowance\<bar> < 2 ^ 256" by simp
  also have "(2::int) ^ 256 < 2 ^ 1024" by (rule power_strict_increasing) simp_all
  finally show ?thesis by (rule py_true_div_returns)
qed

lemma pay_approve_disabled:
  assumes h: "py_true_div (int current_allowance) (10 ^ 18) = Inr h"
    and n: "py_true_div amount_wei (10 ^ 18) = Inr n"
  shows "pay_approve w self private_key address recipient' amount' token' token_address amount_wei
       timeout_seconds False current_allowance =
     ([], Inr (failure
         (''Insufficient allowance. Have: '' @ format_4f h @ '' '' @ token' @
          '', Need: '' @ format_4f n @ '' '' @ token' @
          ''. Run: b402.setup('' @ [CHR 0x27] @ token' @ [CHR 0x27] @
          '') or pay(..., auto_approve=True)'')
         address recipient' amount' token'))"
  unfolding pay_approve_def h n by (simp del: format_4f.simps)


lemma pay_try_insufficient:
  assumes "account_from_key w private_key = Inr address"
    and "map_of TOKENS (network self) = Some tokens"
    and "map_of tokens token' = Some token_address" and "token_address \<noteq> []"
    and "amount_to_wei (py_repr w) amount' = Inr amount_wei"
    and "map_of RELAYERS (network self) = Some relayer"
    and "check_approval w private_key token_address relayer (network self) amount_wei =
           (trc, Inr (False, current_allowance))"
    and a: "pay_approve w self private_key address recipient' amount' token' token_address amount_wei
       timeout_seconds False current_allowance = ([], Inr r)"
  shows "pay_try w self private_key amount' token' recipient' timeout_seconds False = (trc, Inr r)"
    unfolding pay_try_def
    by (simp add: assms(1) dict_index_Inr [OF assms(2)] assms(3,4,5) dict_index_Inr [OF assms(6)]
        assms(7) io_bind_pair_Inr a del: format_4f.simps)

lemma pay_with_private_key:
  assumes "environ_private_key w = Some private_key" and "private_key \<noteq> []"
    and t: "pay_try w self private_key amount' token' recipient' timeout_seconds False = (trc, Inr r)"
  shows "pay w self amount' token' recipient' timeout_seconds False = (trc, Inr r)"
    unfolding pay_def by (simp add: assms(1,2) t del: format_4f.simps)

lemma check_approval_reads_chain:
  assumes "map_of RPC_URLS network' = Some rpc"
    and "account_from_key w private_key = Inr address"
    and "to_checksum_address w token_address = Inr tok"
    and "to_checksum_address w address = Inr owner"
    and "to_checksum_address w spender_address = Inr spender"
    and "call_allowance w rpc tok owner spender = Inr current_allowance"
  shows "check_approval w private_key token_address spender_address network' min_amount =
     ([AllowanceCall rpc tok owner spender],
      Inr (min_amount \<le> int current_allowance, current_allowance))"
  unfolding check_approval_def
  by (simp add: dict_index_Inr [OF assms(1)] assms(2-6))

lemma py_true_div_low_allowance:
  "py_true_div 5000000000000000 1000000000000000000 = Inr (Finite 5764607523034235 (- 60))"
proof -
  have "round_binary64 5000000000000000 1000000000000000000 = Finite 5764607523034235 (- 60)"
    by (subst round_binary64_eval [where la = 53 and ld = 60 and k = "- 7" and lg = "- 8"
          and e = "- 60" and m = 5764607523034235])
       (simp_all add: round_eval)
  then show ?thesis
    by (simp add: py_true_div_def)
qed

lemma format_4f_low_allowance:
  "format_4f (Finite 5764607523034235 (- 60)) = ''0.0050''"
  by (simp add: round_half_even_def Let_def digits_of_nat.simps digit_char_def pad4_def
      replicate_numeral_Cons)

lemma world_low_allowance_fields:
  "environ_private_key world_low_allowance = Some ''0x01''"
  "account_from_key world_low_allowance k = Inr ''0xPayer''"
  "to_checksum_address world_low_allowance a = Inr a"
  "py_repr world_low_allowance = example_repr"
  "call_allowance world_low_allowance rpc tok owner spender = Inr 5000000000000000"
  by (simp_all add: world_low_allowance_def example_world_def)

text \<open>
  Claim C8.  When the allowance that the token contract reports for the payer and the
  relayer is below the amount in base units and auto-approval is disabled, \<open>pay\<close> returns
  the failure result (\<open>success=False\<close>) whose error message is
  \<open>Insufficient allowance. Have: <current> <token>, Need: <required> <token>. Run: ...\<close>,
  where \<open><current>\<close> is the allowance the chain reported and \<open><required>\<close> the amount in
  base units, each divided by \<open>10^18\<close> and printed with four decimals.  The only call
  that reaches the network is that one allowance read: no approval transaction is sent
  and no HTTP request is posted.  The allowance is a \<open>uint256\<close>, which keeps both
  divisions within the range of a float; the required amount is in that range because it
  was obtained from a float.
\<close>

theorem insufficient_allowance_failure:
  assumes "environ_private_key w = Some private_key" and "private_key \<noteq> []"
    and "account_from_key w private_key = Inr address"
    and "map_of TOKENS (network self) = Some tokens"
    and "map_of tokens token' = Some token_address" and "token_address \<noteq> []"
    and "amount_to_wei (py_repr w) amount' = Inr amount_wei"
    and "map_of RELAYERS (network self) = Some relayer"
    and "map_of RPC_URLS (network self) = Some rpc"
    and "to_checksum_address w token_address = Inr tok"
    and "to_checksum_address w address = Inr owner"
    and "to_checksum_address w relayer = Inr spender"
    and "call_allowance w rpc tok owner spender = Inr current_allowance"
    and "int current_allowance < amount_wei"
    and "current_allowance < 2 ^ 256"
  shows "\<exists>h n.
    py_true_div (int current_allowance) (10 ^ 18) = Inr h \<and>
    py_true_div amount_wei (10 ^ 18) = Inr n \<and>
    pay w self amount' token' recipient' timeout_seconds False =
      ([AllowanceCall rpc tok owner spender],
       Inr (failure
         (''Insufficient allowance. Have: '' @ format_4f h @ '' '' @ token' @
          '', Need: '' @ format_4f n @ '' '' @ token' @
          ''. Run: b402.setup('' @ [CHR 0x27] @ token' @ [CHR 0x27] @
          '') or pay(..., auto_approve=True)'')
         address recipient' amount' token'))"
proof -
  obtain h where h: "py_true_div (int current_allowance) (10 ^ 18) = Inr h"
    using allowance_readable_returns [OF assms(15)] by blast
  obtain n where n: "py_true_div amount_wei (10 ^ 18) = Inr n"
    using py_true_div_returns [OF amount_to_wei_bound [OF assms(7)]] by blast
  have c: "check_approval w private_key token_address relayer (network self) amount_wei =
      ([AllowanceCall rpc tok owner spender], Inr (False, current_allowance))"
    using check_approval_reads_chain [OF assms(9) assms(3) assms(10-13), of amount_wei] assms(14)
    by simp
  note e = pay_with_private_key [OF assms(1,2) pay_try_insufficient [OF assms(3-8) c
        pay_approve_disabled [OF h n]]]
  show ?thesis
    by (intro exI conjI) (rule h n e)+
qed

theorem insufficient_allowance_failure_witness:
  "py_true_div (int 5000000000000000) (10 ^ 18) = Inr (Finite 5764607523034235 (- 60)) \<and>
   py_true_div 10000000000000000 (10 ^ 18) = Inr (Finite 5764607523034235 (- 59)) \<and>
   format_4f (Finite 5764607523034235 (- 60)) = ''0.0050'' \<and>
   format_4f (Finite 5764607523034235 (- 59)) = ''0.0100'' \<and>
   pay world_low_allowance example_client ''0.01'' ''USDT'' ''0xABCD'' 3600 False =
     ([example_allowance_call],
      Inr (failure
         (''Insufficient allowance. Have: 0.0050 USDT, Need: 0.0100 USDT. Run: b402.setup('' @
          [CHR 0x27] @ ''USDT'' @ [CHR 0x27] @ '') or pay(..., auto_approve=True)'')
         ''0xPayer'' ''0xABCD'' ''0.01'' ''USDT''))"
proof -
  have t: "map_of [(''USD1'', ''0x8d0d000ee44948fc98c9b98a4fa4921476f08b0d''),
          (''USDT'', ''0x55d398326f99059fF775485246999027B3197955''),
          (''USDC'', ''0x8AC76a51cc950d9822D68b83fE1Ad97B32Cd580d'')] ''USDT'' =
       Some ''0x55d398326f99059fF775485246999027B3197955''"
    by simp
  have k: "''0x01'' \<noteq> []" "''0x55d398326f99059fF775485246999027B3197955'' \<noteq> []" by simp_all
  have r: "map_of RELAYERS (network example_client) = Some ''0xE1C2830d5DDd6B49E9c46EbE03a98Cb44CD8eA5a''"
    by (simp add: RELAYERS_def example_client_fields)
  have u: "map_of RPC_URLS (network example_client) = Some ''https://bsc-dataseed1.binance.org''"
    by (simp add: RPC_URLS_def example_client_fields)
  have a: "amount_to_wei (py_repr world_low_allowance) ''0.01'' = Inr 10000000000000000"
    by (rule amount_to_wei_001)
  have d: "py_true_div (int 5000000000000000) (10 ^ 18) = Inr (Finite 5764607523034235 (- 60))"
    "py_true_div 10000000000000000 (10 ^ 18) = Inr (Finite 5764607523034235 (- 59))"
    using py_true_div_low_allowance py_true_div_examples(2) by simp_all
  have l: "int 5000000000000000 < 10000000000000000" by simp
  have z: "(5000000000000000::nat) < 2 ^ 256" by simp
  have "\<exists>h n'.
    py_true_div (int 5000000000000000) (10 ^ 18) = Inr h \<and>
    py_true_div 10000000000000000 (10 ^ 18) = Inr n' \<and>
    pay world_low_allowance example_client ''0.01'' ''USDT'' ''0xABCD'' 3600 False =
      ([AllowanceCall ''https://bsc-dataseed1.binance.org''
          ''0x55d398326f99059fF775485246999027B3197955'' ''0xPayer''
          ''0xE1C2830d5DDd6B49E9c46EbE03a98Cb44CD8eA5a''],
       Inr (failure
         (''Insufficient allowance. Have: '' @ format_4f h @ '' '' @ ''USDT'' @
          '', Need: '' @ format_4f n' @ '' '' @ ''USDT'' @
          ''. Run: b402.setup('' @ [CHR 0x27] @ ''USDT'' @ [CHR 0x27] @
          '') or pay(..., auto_approve=True)'')
         ''0xPayer'' ''0xABCD'' ''0.01'' ''USDT''))"
    by (rule insufficient_allowance_failure [OF world_low_allowance_fields(1) k(1)
        world_low_allowance_fields(2) example_tokens t k(2) a r u world_low_allowance_fields(3)
        world_low_allowance_fields(3) world_low_allowance_fields(3) world_low_allowance_fields(5)
        l z])
  then obtain h n' where
    h: "py_true_div (int 5000000000000000) (10 ^ 18) = Inr h"
    and n': "py_true_div 10000000000000000 (10 ^ 18) = Inr n'"
    and p: "pay world_low_allowance example_client ''0.01'' ''USDT'' ''0xABCD'' 3600 False =
      ([example_allowance_call],
       Inr (failure
         (''Insufficient allowance. Have: '' @ format_4f h @ '' '' @ ''USDT'' @
          '', Need: '' @ format_4f n' @ '' '' @ ''USDT'' @
          ''. Run: b402.setup('' @ [CHR 0x27] @ ''USDT'' @ [CHR 0x27] @
          '') or pay(..., auto_approve=True)'')
         ''0xPayer'' ''0xABCD'' ''0.01'' ''USDT''))"
    unfolding example_allowance_call_def by blast
  have hv: "h = Finite 5764607523034235 (- 60)" using h unfolding d(1) by simp
  have nv: "n' = Finite 5764607523034235 (- 59)" using n' unfolding d(2) by simp
  have m: "pay world_low_allowance example_client ''0.01'' ''USDT'' ''0xABCD'' 3600 False =
     ([example_allowance_call],
      Inr (failure
         (''Insufficient allowance. Have: 0.0050 USDT, Need: 0.0100 USDT. Run: b402.setup('' @
          [CHR 0x27] @ ''USDT'' @ [CHR 0x27] @ '') or pay(..., auto_approve=True)'')
         ''0xPayer'' ''0xABCD'' ''0.01'' ''USDT''))"
    unfolding p hv nv format_4f_examples format_4f_low_allowance by simp
  show ?thesis
    by (intro conjI) (rule d format_4f_examples format_4f_low_allowance m)+
qed

end
